theory Spec2Isabelle
  imports Complex_Main
begin

section \<open>JavaScript values and arithmetic\<close>

text \<open>
  JavaScript numbers are idealised as reals (integers where the code only ever holds
  integers); \<open>Math.random()\<close> is an explicit argument: a function \<open>rnd\<close> whose value
  \<open>rnd i\<close> is the result of the i-th call made by the modelled function, each in
  the half-open interval from 0 to 1.
\<close>

datatype js_error = TypeError | RangeError

text \<open>The remainder operator \<open>%\<close> on integers: the result takes the sign of the dividend.\<close>

definition js_rem :: "int \<Rightarrow> int \<Rightarrow> int" where
  "js_rem a b = sgn a * (\<bar>a\<bar> mod \<bar>b\<bar>)"

section \<open>The host audio facility\<close>

text \<open>
  The engines drive the Web Audio interface of the browser. A parameter of a node (a
  gain, an oscillator's frequency or detune) is modelled by the value assigned to it
  directly (\<open>.value\<close>, or the interface's default) and by the automation calls made on
  it, in call order, with the arguments the code passes.
\<close>

datatype automation =
    SetValueAtTime real real
  | LinearRampToValueAtTime real real
  | ExponentialRampToValueAtTime real real
  | SetTargetAtTime real real real
  | CancelScheduledValues real

record audio_param =
  pvalue :: real
  events :: "automation list"

definition param :: "real \<Rightarrow> automation list \<Rightarrow> audio_param" where
  "param v es = \<lparr>pvalue = v, events = es\<rparr>"

definition schedule :: "automation \<Rightarrow> audio_param \<Rightarrow> audio_param" where
  "schedule e p = p\<lparr>events := events p @ [e]\<rparr>"



text \<open>The time of an automation call, and what a schedule starts and ends with.\<close>

fun event_time :: "automation \<Rightarrow> real" where
  "event_time (SetValueAtTime v t) = t"
| "event_time (LinearRampToValueAtTime v t) = t"
| "event_time (ExponentialRampToValueAtTime v t) = t"
| "event_time (SetTargetAtTime v t tc) = t"
| "event_time (CancelScheduledValues t) = t"





text \<open>
  An oscillator: its waveform, its frequency and detune parameters, and the times given
  to \<open>start\<close> and \<open>stop\<close> (\<open>None\<close> while not called). The interface's defaults are a
  sine at 440 Hz with no detune; a gain node's gain defaults to 1.
\<close>

record oscillator =
  otype :: string
  frequency :: audio_param
  detune :: audio_param
  startTime :: "real option"
  stopTime :: "real option"

definition osc :: "string \<Rightarrow> audio_param \<Rightarrow> real \<Rightarrow> real option \<Rightarrow> oscillator" where
  "osc ty f start stop =
     \<lparr>otype = ty, frequency = f, detune = param 0 [], startTime = Some start, stopTime = stop\<rparr>"

text \<open>
  The audio context: its clock and the oscillator and gain nodes created so far. A node
  is referred to by its position in the store, so that two references to one node see
  the same changes. Noise buffers, filters and the connections between nodes are not
  part of the model.
\<close>

record audio_context =
  currentTime :: real
  oscillators :: "oscillator list"
  gainNodes :: "audio_param list"

definition new_context :: audio_context where
  "new_context = \<lparr>currentTime = 0, oscillators = [], gainNodes = []\<rparr>"

definition add_nodes :: "oscillator list \<Rightarrow> audio_param list \<Rightarrow> audio_context \<Rightarrow> audio_context" where
  "add_nodes os gs c = c\<lparr>oscillators := oscillators c @ os, gainNodes := gainNodes c @ gs\<rparr>"

text \<open>\<open>osc.stop()\<close> inside \<open>try\<close>: stops a started oscillator now; the error of stopping one
  that never started is swallowed.\<close>

definition stop_oscillator :: "nat \<Rightarrow> audio_context \<Rightarrow> audio_context" where
  "stop_oscillator h c =
     (if h < length (oscillators c) \<and> startTime (oscillators c ! h) \<noteq> None
      then c\<lparr>oscillators := (oscillators c)[h := (oscillators c ! h)\<lparr>stopTime := Some (currentTime c)\<rparr>]\<rparr>
      else c)"

text \<open>An oscillator sounds from its start until a stop is set for it.\<close>

definition running :: "audio_context \<Rightarrow> nat \<Rightarrow> bool" where
  "running c h =
     (h < length (oscillators c) \<and> startTime (oscillators c ! h) \<noteq> None
      \<and> stopTime (oscillators c ! h) = None)"

text \<open>
  A number as the engines store it: \<open>undefined\<close> for a missing property, \<open>NaN\<close> for the
  product with it. A parameter method given a value that is not a finite number throws.
\<close>

datatype jsval = Undefined | NaN | Num real


section \<open>The sequencer of the engines in part_000 and part_002\<close>

text \<open>
  Both engines hold \<open>this.sequencer\<close> with the same fields: sixteen cells
  \<open>{ noteIndex, active }\<close> per instrument.
\<close>

record cell =
  noteIndex :: int
  active :: bool

record sequencer =
  isPlaying :: bool
  currentStep :: int
  bpm :: real
  randomness :: real
  intervalId :: "nat option"
  bowls :: "cell list"
  wind :: "cell list"
  strings :: "cell list"
  horn :: "cell list"
  moorhen :: "cell list"
  oystercatcher :: "cell list"

text \<open>
  \<open>this.sequencer[instrument]\<close>: the rows are the six instrument properties. Every other
  key (\<open>isPlaying\<close>, \<open>bpm\<close>, a missing name) holds no array of cells, so indexing it
  yields \<open>undefined\<close>; that is \<open>None\<close> here.
\<close>

datatype row_key = Bowls | Wind | Strings | Horn | Moorhen | Oystercatcher

definition row_key_of :: "string \<Rightarrow> row_key option" where
  "row_key_of k =
     (if k = ''bowls'' then Some Bowls
      else if k = ''wind'' then Some Wind
      else if k = ''strings'' then Some Strings
      else if k = ''horn'' then Some Horn
      else if k = ''moorhen'' then Some Moorhen
      else if k = ''oystercatcher'' then Some Oystercatcher
      else None)"

fun get_row :: "row_key \<Rightarrow> sequencer \<Rightarrow> cell list" where
  "get_row Bowls q = bowls q"
| "get_row Wind q = wind q"
| "get_row Strings q = strings q"
| "get_row Horn q = horn q"
| "get_row Moorhen q = moorhen q"
| "get_row Oystercatcher q = oystercatcher q"

fun set_row :: "row_key \<Rightarrow> cell list \<Rightarrow> sequencer \<Rightarrow> sequencer" where
  "set_row Bowls row q = q\<lparr>bowls := row\<rparr>"
| "set_row Wind row q = q\<lparr>wind := row\<rparr>"
| "set_row Strings row q = q\<lparr>strings := row\<rparr>"
| "set_row Horn row q = q\<lparr>horn := row\<rparr>"
| "set_row Moorhen row q = q\<lparr>moorhen := row\<rparr>"
| "set_row Oystercatcher row q = q\<lparr>oystercatcher := row\<rparr>"

definition seq_row :: "sequencer \<Rightarrow> string \<Rightarrow> cell list option" where
  "seq_row q k = map_option (\<lambda>r. get_row r q) (row_key_of k)"

definition seq_row_update :: "string \<Rightarrow> cell list \<Rightarrow> sequencer \<Rightarrow> sequencer" where
  "seq_row_update k row q = (case row_key_of k of None \<Rightarrow> q | Some r \<Rightarrow> set_row r row q)"

text \<open>\<open>this.sequencer[instrument][stepIndex]\<close>, \<open>undefined\<close> outside the array.\<close>

definition seq_cell :: "sequencer \<Rightarrow> string \<Rightarrow> int \<Rightarrow> cell option" where
  "seq_cell q k i =
     (case seq_row q k of
        None \<Rightarrow> None
      | Some row \<Rightarrow> if 0 \<le> i \<and> i < int (length row) then Some (row ! nat i) else None)"

text \<open>The constructor's rows: \<open>Array(16).fill(null).map((_, i) => ({ noteIndex: i % 7, active: false }))\<close>.\<close>

definition initial_row :: "cell list" where
  "initial_row = map (\<lambda>i. \<lparr>noteIndex = int i mod 7, active = False\<rparr>) [0..<16]"

definition initial_sequencer :: sequencer where
  "initial_sequencer =
     \<lparr>isPlaying = False, currentStep = 0, bpm = 120, randomness = 0, intervalId = None,
      bowls = initial_row, wind = initial_row, strings = initial_row, horn = initial_row,
      moorhen = initial_row, oystercatcher = initial_row\<rparr>"

text \<open>Every row has its sixteen cells.\<close>

definition rows16 :: "sequencer \<Rightarrow> bool" where
  "rows16 q =
     (length (bowls q) = 16 \<and> length (wind q) = 16 \<and> length (strings q) = 16
      \<and> length (horn q) = 16 \<and> length (moorhen q) = 16 \<and> length (oystercatcher q) = 16)"

subsection \<open>part_000: editing cells\<close>

definition setSequencerStep ::
  "string \<Rightarrow> int \<Rightarrow> int option \<Rightarrow> bool option \<Rightarrow> sequencer \<Rightarrow> sequencer" where
  "setSequencerStep instrument stepIndex noteIdx act q =
     (case seq_row q instrument of
        None \<Rightarrow> q
      | Some row \<Rightarrow>
          if 0 \<le> stepIndex \<and> stepIndex < int (length row) then
            let c = row ! nat stepIndex;
                c1 = (case noteIdx of None \<Rightarrow> c | Some n \<Rightarrow> c\<lparr>noteIndex := n\<rparr>);
                c2 = (case act of None \<Rightarrow> c1 | Some a \<Rightarrow> c1\<lparr>active := a\<rparr>)
            in seq_row_update instrument (row[nat stepIndex := c2]) q
          else q)"


subsection \<open>part_000: the step pointer\<close>

definition setSequencerRandomness :: "real \<Rightarrow> sequencer \<Rightarrow> sequencer" where
  "setSequencerRandomness v q = q\<lparr>randomness := max 0 (min 1 v)\<rparr>"

definition advanceSequencerStep :: "(nat \<Rightarrow> real) \<Rightarrow> sequencer \<Rightarrow> sequencer" where
  "advanceSequencerStep rnd q =
     (if randomness q = 0 then
        q\<lparr>currentStep := js_rem (currentStep q + 1) 16\<rparr>
      else if randomness q \<ge> 1 then
        q\<lparr>currentStep := \<lfloor>rnd 0 * 16\<rfloor>\<rparr>
      else if rnd 0 < randomness q then
        let jumpRange = \<lceil>randomness q * 15\<rceil>;
            jump = \<lfloor>rnd 1 * real_of_int (jumpRange * 2 + 1)\<rfloor> - jumpRange
        in q\<lparr>currentStep := js_rem (js_rem (currentStep q + jump) 16 + 16) 16\<rparr>
      else
        q\<lparr>currentStep := js_rem (currentStep q + 1) 16\<rparr>)"

text \<open>The pointer over successive timer ticks, one stream of random draws per tick.\<close>

fun advanceSteps :: "(nat \<Rightarrow> real) list \<Rightarrow> sequencer \<Rightarrow> sequencer" where
  "advanceSteps [] q = q"
| "advanceSteps (rnd # rnds) q = advanceSteps rnds (advanceSequencerStep rnd q)"

section \<open>v2.0.0 synth.js: the MoorhenSynth engine\<close>

text \<open>
  The fields of the class that the modelled methods use. The nodes made by \<open>init\<close> are
  \<open>null\<close> until then; each is represented by the parameter the engine drives (the gain
  of a gain node, the frequency of the filter). \<open>droneOscillators\<close> holds the pairs
  \<open>{ osc, gain }\<close> as references into the context. \<open>timeouts\<close> are the pending
  \<open>setTimeout\<close> callbacks of \<open>stopDrone\<close>: the delay and the oscillators to stop.
\<close>

record synth =
  audioContext :: "audio_context option"
  masterGain :: "audio_param option"
  filterNode :: "audio_param option"
  reverbGain :: "audio_param option"
  dryGain :: "audio_param option"
  droneGain :: "audio_param option"
  pitchBend :: real
  instrumentVolumes :: "string \<Rightarrow> jsval"
  droneActive :: bool
  droneOscillators :: "(nat \<times> nat) list"
  droneBaseNote :: real
  droneTargetVolume :: real
  timeouts :: "(real \<times> nat list) list"

definition new_synth :: synth where
  "new_synth =
     \<lparr>audioContext = None, masterGain = None, filterNode = None, reverbGain = None,
      dryGain = None, droneGain = None, pitchBend = 0,
      instrumentVolumes = (\<lambda>_. Undefined)
        (''bowls'' := Num 0.7, ''wind'' := Num 0.6, ''strings'' := Num 0.7, ''horn'' := Num 0.6,
         ''moorhen'' := Num 0.5, ''oystercatcher'' := Num 0.4, ''stick'' := Num 0.6),
      droneActive = False, droneOscillators = [], droneBaseNote = 0, droneTargetVolume = 0.3,
      timeouts = []\<rparr>"

definition init :: "synth \<Rightarrow> synth" where
  "init s =
     s\<lparr>audioContext := Some new_context, masterGain := Some (param 0.7 []),
       filterNode := Some (param 2000 []), dryGain := Some (param 0.5 []),
       reverbGain := Some (param 0.5 []), droneGain := Some (param 0 [])\<rparr>"

definition scaleIntervals :: "int list" where
  "scaleIntervals = [0, 3, 5, 7, 10, 12, 15]"

definition baseFreq :: real where
  "baseFreq = 261.63"

text \<open>\<open>this.scaleIntervals[noteIndex] || 0\<close>: an index outside the table gives 0 semitones.\<close>

definition getFrequency :: "synth \<Rightarrow> int \<Rightarrow> real" where
  "getFrequency s noteIdx =
     (let semitones = (if 0 \<le> noteIdx \<and> noteIdx < int (length scaleIntervals)
                       then scaleIntervals ! nat noteIdx else 0)
      in baseFreq * 2 powr ((real_of_int semitones + pitchBend s) / 12))"

definition setMasterVolume :: "real \<Rightarrow> synth \<Rightarrow> js_error + synth" where
  "setMasterVolume v s =
     (case (masterGain s, audioContext s) of
        (Some g, Some c) \<Rightarrow> Inr (s\<lparr>masterGain := Some (schedule (SetTargetAtTime v (currentTime c) 0.01) g)\<rparr>)
      | _ \<Rightarrow> Inl TypeError)"

definition setFilter :: "real \<Rightarrow> synth \<Rightarrow> js_error + synth" where
  "setFilter f s =
     (case (filterNode s, audioContext s) of
        (Some g, Some c) \<Rightarrow> Inr (s\<lparr>filterNode := Some (schedule (SetTargetAtTime f (currentTime c) 0.05) g)\<rparr>)
      | _ \<Rightarrow> Inl TypeError)"

definition setReverb :: "real \<Rightarrow> synth \<Rightarrow> js_error + synth" where
  "setReverb amount s =
     (case (dryGain s, reverbGain s, audioContext s) of
        (Some d, Some r, Some c) \<Rightarrow>
          Inr (s\<lparr>dryGain := Some (schedule (SetTargetAtTime (1 - amount * 0.7) (currentTime c) 0.05) d),
                 reverbGain := Some (schedule (SetTargetAtTime amount (currentTime c) 0.05) r)\<rparr>)
      | _ \<Rightarrow> Inl TypeError)"

definition setInstrumentVolume :: "string \<Rightarrow> jsval \<Rightarrow> synth \<Rightarrow> synth" where
  "setInstrumentVolume instrument v s = s\<lparr>instrumentVolumes := (instrumentVolumes s)(instrument := v)\<rparr>"

subsection \<open>Instrument sounds\<close>

text \<open>
  Each \<open>play\<close> method reads the clock of the context (a \<open>TypeError\<close> on \<open>null\<close>) and the
  instrument's volume, and creates oscillators and gain nodes with the schedules below,
  listed in creation order. The products with the volume go to parameter methods, which
  throw unless the volume is a finite number.
\<close>

definition bowl_oscillators :: "real \<Rightarrow> real \<Rightarrow> oscillator list" where
  "bowl_oscillators freq now =
     [osc ''sine'' (param freq []) now (Some (now + 4)),
      osc ''sine'' (param (freq * 2.01) []) now (Some (now + 3)),
      osc ''sine'' (param (freq * 3.02) []) now (Some (now + 2))]"

definition bowl_gains :: "real \<Rightarrow> real \<Rightarrow> audio_param list" where
  "bowl_gains volume now =
     [param 1 [SetValueAtTime 0 now, LinearRampToValueAtTime (volume * 0.4) (now + 0.01),
               ExponentialRampToValueAtTime 0.001 (now + 4)],
      param 1 [SetValueAtTime 0 now, LinearRampToValueAtTime (volume * 0.2) (now + 0.01),
               ExponentialRampToValueAtTime 0.001 (now + 3)],
      param 1 [SetValueAtTime 0 now, LinearRampToValueAtTime (volume * 0.1) (now + 0.01),
               ExponentialRampToValueAtTime 0.001 (now + 2)]]"

definition wind_oscillators :: "real \<Rightarrow> real \<Rightarrow> oscillator list" where
  "wind_oscillators freq now =
     [osc ''sine'' (param freq []) now (Some (now + 1.5)),
      osc ''sine'' (param 5 []) now (Some (now + 1.5))]"

definition wind_gains :: "real \<Rightarrow> real \<Rightarrow> audio_param list" where
  "wind_gains volume now =
     [param 3 [],
      param 1 [SetValueAtTime 0 now, LinearRampToValueAtTime (volume * 0.3) (now + 0.1),
               SetValueAtTime (volume * 0.3) (now + 0.8),
               ExponentialRampToValueAtTime 0.001 (now + 1.5)],
      param 1 [SetValueAtTime 0 now, LinearRampToValueAtTime (volume * 0.08) (now + 0.05),
               ExponentialRampToValueAtTime 0.001 (now + 1.2)]]"

definition string_oscillators :: "real \<Rightarrow> real \<Rightarrow> oscillator list" where
  "string_oscillators freq now =
     [osc ''sawtooth'' (param freq []) now (Some (now + 2)),
      osc ''triangle'' (param (freq * 2) []) now (Some (now + 1.5))]"

definition string_gains :: "real \<Rightarrow> real \<Rightarrow> audio_param list" where
  "string_gains volume now =
     [param 1 [SetValueAtTime 0 now, LinearRampToValueAtTime (volume * 0.35) (now + 0.005),
               ExponentialRampToValueAtTime 0.001 (now + 2)],
      param 1 [SetValueAtTime 0 now, LinearRampToValueAtTime (volume * 0.15) (now + 0.005),
               ExponentialRampToValueAtTime 0.001 (now + 1.5)]]"

definition horn_harmonics :: "real list" where
  "horn_harmonics = [1, 2, 3, 4, 5, 6]"

definition horn_harmonicGains :: "real list" where
  "horn_harmonicGains = [1, 0.7, 0.5, 0.3, 0.2, 0.1]"

definition horn_oscillators :: "real \<Rightarrow> real \<Rightarrow> oscillator list" where
  "horn_oscillators freq now =
     map (\<lambda>i. osc (if i = 0 then ''sawtooth'' else ''sine'') (param (freq * horn_harmonics ! i) [])
                now (Some (now + 1.2)))
       [0..<length horn_harmonics]"

definition horn_gains :: "real \<Rightarrow> real \<Rightarrow> audio_param list" where
  "horn_gains volume now =
     map (\<lambda>i. param 1
            [SetValueAtTime 0 now,
             LinearRampToValueAtTime (volume * horn_harmonicGains ! i * 0.15) (now + 0.08),
             SetValueAtTime (volume * horn_harmonicGains ! i * 0.15) (now + 0.6),
             ExponentialRampToValueAtTime 0.001 (now + 1.2)])
       [0..<length horn_harmonics]"

definition moorhen_oscillators :: "real \<Rightarrow> real \<Rightarrow> oscillator list" where
  "moorhen_oscillators freq now =
     [osc ''sine'' (param 440 [SetValueAtTime (freq * 1.3) now,
                               ExponentialRampToValueAtTime (freq * 0.8) (now + 0.15),
                               ExponentialRampToValueAtTime freq (now + 0.25)])
        now (Some (now + 0.4)),
      osc ''sine'' (param 30 []) now (Some (now + 0.4))]"

definition moorhen_gains :: "real \<Rightarrow> real \<Rightarrow> audio_param list" where
  "moorhen_gains volume now =
     [param 15 [],
      param 1 [SetValueAtTime 0 now, LinearRampToValueAtTime (volume * 0.4) (now + 0.02),
               LinearRampToValueAtTime (volume * 0.3) (now + 0.15),
               ExponentialRampToValueAtTime 0.001 (now + 0.4)]]"

definition oystercatcher_oscillators :: "real \<Rightarrow> real \<Rightarrow> oscillator list" where
  "oystercatcher_oscillators freq now =
     map (\<lambda>i. let offset = real i * 0.12 in
            osc ''sine'' (param 440 [SetValueAtTime (freq * 1.2) (now + offset),
                                     ExponentialRampToValueAtTime (freq * 0.9) (now + offset + 0.08)])
              (now + offset) (Some (now + offset + 0.12)))
       [0..<2]"

definition oystercatcher_gains :: "real \<Rightarrow> real \<Rightarrow> audio_param list" where
  "oystercatcher_gains volume now =
     map (\<lambda>i. let offset = real i * 0.12 in
            param 1 [SetValueAtTime 0 (now + offset),
                     LinearRampToValueAtTime (volume * 0.35) (now + offset + 0.01),
                     ExponentialRampToValueAtTime 0.001 (now + offset + 0.1)])
       [0..<2]"

definition stick_oscillators :: "real \<Rightarrow> real \<Rightarrow> oscillator list" where
  "stick_oscillators basePitch now =
     [osc ''triangle'' (param 440 [SetValueAtTime basePitch now,
                                   ExponentialRampToValueAtTime (basePitch * 0.7) (now + 0.1)])
        now (Some (now + 0.2)),
      osc ''sine'' (param 440 [SetValueAtTime (basePitch * 1.5) now,
                               ExponentialRampToValueAtTime (basePitch * 0.9) (now + 0.08)])
        now (Some (now + 0.15))]"

text \<open>The gains of \<open>playStick\<close>: crack, the two wood tones, crackle, fiber.\<close>

definition stick_gains :: "real \<Rightarrow> real \<Rightarrow> audio_param list" where
  "stick_gains volume now =
     [param 1 [SetValueAtTime 0 now, LinearRampToValueAtTime (volume * 0.8) (now + 0.001),
               ExponentialRampToValueAtTime 0.001 (now + 0.05)],
      param 1 [SetValueAtTime 0 now, LinearRampToValueAtTime (volume * 0.35) (now + 0.002),
               ExponentialRampToValueAtTime 0.001 (now + 0.15)],
      param 1 [SetValueAtTime 0 now, LinearRampToValueAtTime (volume * 0.2) (now + 0.002),
               ExponentialRampToValueAtTime 0.001 (now + 0.1)],
      param 1 [SetValueAtTime 0 (now + 0.02), LinearRampToValueAtTime (volume * 0.25) (now + 0.022),
               ExponentialRampToValueAtTime 0.001 (now + 0.06)],
      param 1 [SetValueAtTime 0 (now + 0.005), LinearRampToValueAtTime (volume * 0.15) (now + 0.01),
               ExponentialRampToValueAtTime 0.001 (now + 0.12)]]"

text \<open>The common course of a \<open>play\<close> method, given the nodes it creates.\<close>

definition play_nodes ::
  "string \<Rightarrow> (real \<Rightarrow> oscillator list) \<Rightarrow> (real \<Rightarrow> real \<Rightarrow> audio_param list) \<Rightarrow> synth
     \<Rightarrow> js_error + synth" where
  "play_nodes name os gs s =
     (case audioContext s of
        None \<Rightarrow> Inl TypeError
      | Some c \<Rightarrow>
          (case instrumentVolumes s name of
             Num volume \<Rightarrow>
               Inr (s\<lparr>audioContext := Some (add_nodes (os (currentTime c)) (gs volume (currentTime c)) c)\<rparr>)
           | _ \<Rightarrow> Inl TypeError))"

definition playBowl :: "int \<Rightarrow> synth \<Rightarrow> js_error + synth" where
  "playBowl noteIdx s = play_nodes ''bowls'' (bowl_oscillators (getFrequency s noteIdx)) bowl_gains s"

definition playWind :: "int \<Rightarrow> synth \<Rightarrow> js_error + synth" where
  "playWind noteIdx s = play_nodes ''wind'' (wind_oscillators (getFrequency s noteIdx)) wind_gains s"

definition playString :: "int \<Rightarrow> synth \<Rightarrow> js_error + synth" where
  "playString noteIdx s =
     play_nodes ''strings'' (string_oscillators (getFrequency s noteIdx)) string_gains s"

definition playHorn :: "int \<Rightarrow> synth \<Rightarrow> js_error + synth" where
  "playHorn noteIdx s =
     play_nodes ''horn'' (horn_oscillators (getFrequency s noteIdx / 2)) horn_gains s"

definition playMoorhen :: "int \<Rightarrow> synth \<Rightarrow> js_error + synth" where
  "playMoorhen noteIdx s =
     play_nodes ''moorhen'' (moorhen_oscillators (getFrequency s noteIdx * 2)) moorhen_gains s"

definition playOystercatcher :: "int \<Rightarrow> synth \<Rightarrow> js_error + synth" where
  "playOystercatcher noteIdx s =
     play_nodes ''oystercatcher'' (oystercatcher_oscillators (getFrequency s noteIdx * 3))
       oystercatcher_gains s"

definition playStick :: "int \<Rightarrow> synth \<Rightarrow> js_error + synth" where
  "playStick noteIdx s =
     play_nodes ''stick'' (stick_oscillators (200 + real_of_int noteIdx * 80)) stick_gains s"

definition playInstrument :: "string \<Rightarrow> int \<Rightarrow> synth \<Rightarrow> js_error + synth" where
  "playInstrument instrument noteIdx s =
     (if instrument = ''bowls'' then playBowl noteIdx s
      else if instrument = ''wind'' then playWind noteIdx s
      else if instrument = ''strings'' then playString noteIdx s
      else if instrument = ''horn'' then playHorn noteIdx s
      else if instrument = ''moorhen'' then playMoorhen noteIdx s
      else if instrument = ''oystercatcher'' then playOystercatcher noteIdx s
      else if instrument = ''stick'' then playStick noteIdx s
      else Inr s)"

subsection \<open>Drone\<close>

text \<open>\<open>startDrone(baseNote, volume)\<close>; \<open>rnd i\<close> is the draw that detunes oscillator i.\<close>

definition drone_frequencies :: "real \<Rightarrow> real list" where
  "drone_frequencies b = [b, b * 2, b * 3, b * 1.5]"

definition drone_gains :: "real list" where
  "drone_gains = [0.4, 0.2, 0.1, 0.15]"

definition startDrone :: "real \<Rightarrow> real \<Rightarrow> (nat \<Rightarrow> real) \<Rightarrow> synth \<Rightarrow> js_error + synth" where
  "startDrone baseNote volume rnd s =
     (if droneActive s then Inr s
      else
        case (audioContext s, droneGain s) of
          (Some c, Some dg) \<Rightarrow>
            let b = 65.41 * 2 powr (baseNote / 12);
                now = currentTime c;
                frequencies = drone_frequencies b;
                os = map (\<lambda>i. \<lparr>otype = (if i = 0 then ''sawtooth'' else ''sine''),
                               frequency = param (frequencies ! i + (rnd i - 0.5) * 0.5) [],
                               detune = param 0 [], startTime = Some now, stopTime = None\<rparr>)
                       [0..<length frequencies];
                gs = map (\<lambda>i. param (drone_gains ! i) []) [0..<length frequencies];
                refs = map (\<lambda>i. (length (oscillators c) + i, length (gainNodes c) + i))
                         [0..<length frequencies]
            in Inr (s\<lparr>droneActive := True, droneBaseNote := baseNote, droneTargetVolume := volume,
                      audioContext := Some (add_nodes os gs c),
                      droneOscillators := droneOscillators s @ refs,
                      droneGain := Some (schedule (SetTargetAtTime volume now 0.5) dg)\<rparr>)
        | _ \<Rightarrow> Inl TypeError)"

definition stopDrone :: "synth \<Rightarrow> js_error + synth" where
  "stopDrone s =
     (if \<not> droneActive s then Inr s
      else
        case (audioContext s, droneGain s) of
          (Some c, Some dg) \<Rightarrow>
            Inr (s\<lparr>droneActive := False,
                   droneGain := Some (schedule (SetTargetAtTime 0 (currentTime c) 0.5) dg),
                   droneOscillators := [],
                   timeouts := timeouts s @ [(2000, map fst (droneOscillators s))]\<rparr>)
        | _ \<Rightarrow> Inl TypeError)"

text \<open>
  A pending callback of \<open>stopDrone\<close> runs: every oscillator it kept is stopped. Then all
  pending callbacks, in the order they were set (their delays are equal).
\<close>

definition run_timeout :: "real \<times> nat list \<Rightarrow> synth \<Rightarrow> synth" where
  "run_timeout cb s = s\<lparr>audioContext := map_option (fold stop_oscillator (snd cb)) (audioContext s)\<rparr>"

definition run_timeouts :: "synth \<Rightarrow> synth" where
  "run_timeouts s = fold run_timeout (timeouts s) (s\<lparr>timeouts := []\<rparr>)"

definition toggleDrone :: "real \<Rightarrow> real \<Rightarrow> (nat \<Rightarrow> real) \<Rightarrow> synth \<Rightarrow> js_error + (bool \<times> synth)" where
  "toggleDrone baseNote volume rnd s =
     (case (if droneActive s then stopDrone s else startDrone baseNote volume rnd s) of
        Inl e \<Rightarrow> Inl e
      | Inr s' \<Rightarrow> Inr (droneActive s', s'))"

definition setDroneVolume :: "real \<Rightarrow> synth \<Rightarrow> js_error + synth" where
  "setDroneVolume volume s =
     (let s' = s\<lparr>droneTargetVolume := volume\<rparr> in
      if droneActive s' then
        (case (audioContext s', droneGain s') of
           (Some c, Some dg) \<Rightarrow>
             Inr (s'\<lparr>droneGain := Some (schedule (SetTargetAtTime volume (currentTime c) 0.1) dg)\<rparr>)
         | _ \<Rightarrow> Inl TypeError)
      else Inr s')"

text \<open>
  \<open>updateDroneFrequencies\<close>: oscillator i of the bank glides to \<open>frequencies[i]\<close> when that
  entry exists and is not 0. The clock is read inside the loop only.
\<close>

definition retune :: "real list \<Rightarrow> real \<Rightarrow> nat \<times> (nat \<times> nat) \<Rightarrow> audio_context \<Rightarrow> audio_context" where
  "retune frequencies now ih c =
     (let i = fst ih; h = fst (snd ih) in
      if i < length frequencies \<and> frequencies ! i \<noteq> 0 \<and> h < length (oscillators c) then
        c\<lparr>oscillators := (oscillators c)
            [h := (oscillators c ! h)
               \<lparr>frequency := schedule (SetTargetAtTime (frequencies ! i) now 0.1)
                                (frequency (oscillators c ! h))\<rparr>]\<rparr>
      else c)"

definition updateDroneFrequencies :: "synth \<Rightarrow> js_error + synth" where
  "updateDroneFrequencies s =
     (let b = 65.41 * 2 powr ((droneBaseNote s + pitchBend s) / 12);
          frequencies = drone_frequencies b
      in case audioContext s of
           None \<Rightarrow> if droneOscillators s = [] then Inr s else Inl TypeError
         | Some c \<Rightarrow>
             Inr (s\<lparr>audioContext :=
                      Some (fold (retune frequencies (currentTime c))
                              (enumerate 0 (droneOscillators s)) c)\<rparr>))"


definition setDroneBase :: "real \<Rightarrow> synth \<Rightarrow> js_error + synth" where
  "setDroneBase semitones s =
     (let s' = s\<lparr>droneBaseNote := semitones\<rparr> in
      if droneActive s' then updateDroneFrequencies s' else Inr s')"


section \<open>part_002: the MoorhenSynth engine with voice objects\<close>

text \<open>
  The engine of part_002 (with part_003 as its page script). A voice is built from a
  scale frequency and the context time; \<open>voice.gain\<close> is the gain node that feeds the
  master gain, the other gain nodes sit inside the voice.
\<close>

record voice_nodes =
  vn_oscillators :: "oscillator list"
  vn_gain :: audio_param
  vn_inner :: "audio_param list"

record synth_p2 =
  audioContext_p2 :: "audio_context option"
  masterGain_p2 :: "audio_param option"
  masterFilter_p2 :: "audio_param option"
  reverbGain_p2 :: "audio_param option"
  droneVoices_p2 :: "(nat \<times> nat) list"
  isInitialized_p2 :: bool
  droneActive_p2 :: bool
  droneBaseTone_p2 :: real
  droneVolume_p2 :: "real option"
  sequencer_p2 :: sequencer
  instrumentVolumes_p2 :: "string \<Rightarrow> jsval"
  filterFreq_p2 :: real
  reverbMix_p2 :: real
  pitchBend_p2 :: real
  timeouts_p2 :: "(real \<times> nat) list"

definition new_synth_p2 :: synth_p2 where
  "new_synth_p2 =
     \<lparr>audioContext_p2 = None, masterGain_p2 = None, masterFilter_p2 = None, reverbGain_p2 = None,
      droneVoices_p2 = [], isInitialized_p2 = False, droneActive_p2 = False, droneBaseTone_p2 = 0,
      droneVolume_p2 = None, sequencer_p2 = initial_sequencer,
      instrumentVolumes_p2 = (\<lambda>_. Undefined)
        (''bowls'' := Num 0.7, ''wind'' := Num 0.6, ''strings'' := Num 0.7, ''horn'' := Num 0.6,
         ''moorhen'' := Num 0.5, ''oystercatcher'' := Num 0.4),
      filterFreq_p2 = 2000, reverbMix_p2 = 0.5, pitchBend_p2 = 0, timeouts_p2 = []\<rparr>"

definition init_p2 :: "synth_p2 \<Rightarrow> synth_p2" where
  "init_p2 s =
     (if isInitialized_p2 s then s
      else s\<lparr>audioContext_p2 := Some new_context, masterGain_p2 := Some (param 0.7 []),
             masterFilter_p2 := Some (param (filterFreq_p2 s) []),
             reverbGain_p2 := Some (param (reverbMix_p2 s) []), isInitialized_p2 := True\<rparr>)"

definition meditation_p2 :: "real list" where
  "meditation_p2 = [130.81, 155.56, 174.61, 196.00, 233.08, 261.63, 311.13]"

subsection \<open>Voices\<close>

text \<open>
  The argument \<open>b\<close> is the voice's \<open>baseFreq\<close>, the scale frequency with the pitch bend
  applied; \<open>vol\<close> is the instrument's volume.
\<close>

definition bowlVoice_p2 :: "real \<Rightarrow> real \<Rightarrow> real \<Rightarrow> voice_nodes" where
  "bowlVoice_p2 b vol time =
     \<lparr>vn_oscillators =
        [osc ''sine'' (param 440 [SetValueAtTime b time]) time (Some (time + 4)),
         osc ''sine'' (param 440 [SetValueAtTime (b * 2.71) time]) time (Some (time + 4)),
         osc ''sine'' (param 440 [SetValueAtTime (b * 5.4) time]) time (Some (time + 4))],
      vn_gain = param 1 [SetValueAtTime 0 time, LinearRampToValueAtTime (0.4 * vol) (time + 0.1),
                         ExponentialRampToValueAtTime 0.001 (time + 4)],
      vn_inner = [param 0.3 [], param 0.15 []]\<rparr>"

definition bansuriVoice_p2 :: "real \<Rightarrow> real \<Rightarrow> real \<Rightarrow> voice_nodes" where
  "bansuriVoice_p2 b vol time =
     \<lparr>vn_oscillators =
        [osc ''sine'' (param 440 [SetValueAtTime b time]) time (Some (time + 2)),
         osc ''sine'' (param 5 []) time (Some (time + 2))],
      vn_gain = param 1 [SetValueAtTime 0 time, LinearRampToValueAtTime (0.3 * vol) (time + 0.15),
                         SetValueAtTime (0.25 * vol) (time + 0.3),
                         ExponentialRampToValueAtTime 0.001 (time + 2)],
      vn_inner =
        [param 1 [SetValueAtTime 0 time, LinearRampToValueAtTime (0.08 * vol) (time + 0.1),
                  ExponentialRampToValueAtTime 0.001 (time + 1.5)],
         param 3 []]\<rparr>"

definition sitarVoice_p2 :: "real \<Rightarrow> real \<Rightarrow> real \<Rightarrow> voice_nodes" where
  "sitarVoice_p2 b vol time =
     \<lparr>vn_oscillators =
        [osc ''sawtooth'' (param 440 [SetValueAtTime (b * 1.01) time,
                                      ExponentialRampToValueAtTime b (time + 0.05)])
           time (Some (time + 3)),
         osc ''triangle'' (param 440 [SetValueAtTime (b * 2) time]) time (Some (time + 3))],
      vn_gain = param 1 [SetValueAtTime 0 time, LinearRampToValueAtTime (0.5 * vol) (time + 0.01),
                         ExponentialRampToValueAtTime (0.2 * vol) (time + 0.1),
                         ExponentialRampToValueAtTime 0.001 (time + 3)],
      vn_inner =
        [param 1 [SetValueAtTime 0.15 time, ExponentialRampToValueAtTime 0.001 (time + 2)]]\<rparr>"

definition hornVoice_p2 :: "real \<Rightarrow> real \<Rightarrow> real \<Rightarrow> voice_nodes" where
  "hornVoice_p2 b vol time =
     \<lparr>vn_oscillators =
        [osc ''sawtooth'' (param 440 [SetValueAtTime b time]) time (Some (time + 4)),
         osc ''sine'' (param 440 [SetValueAtTime (b * 2) time]) time (Some (time + 4)),
         osc ''sine'' (param 440 [SetValueAtTime (b * 3) time]) time (Some (time + 4))],
      vn_gain = param 1 [SetValueAtTime 0 time, LinearRampToValueAtTime (0.4 * vol) (time + 0.5),
                         SetValueAtTime (0.35 * vol) (time + 1),
                         ExponentialRampToValueAtTime 0.001 (time + 4)],
      vn_inner = [param 0.3 [], param 0.15 []]\<rparr>"

definition moorhenVoice_p2 :: "real \<Rightarrow> real \<Rightarrow> real \<Rightarrow> voice_nodes" where
  "moorhenVoice_p2 b vol time =
     \<lparr>vn_oscillators =
        [osc ''sine'' (param 440 [SetValueAtTime b time,
                                  ExponentialRampToValueAtTime (b * 0.7) (time + 0.15),
                                  ExponentialRampToValueAtTime (b * 0.5) (time + 0.4)])
           time (Some (time + 0.8)),
         osc ''triangle'' (param 440 [SetValueAtTime (b * 1.5) time,
                                      ExponentialRampToValueAtTime (b * 1.2) (time + 0.2)])
           time (Some (time + 0.8)),
         osc ''sine'' (param 20 []) time (Some (time + 0.8))],
      vn_gain = param 1 [SetValueAtTime 0 time, LinearRampToValueAtTime (0.5 * vol) (time + 0.02),
                         ExponentialRampToValueAtTime (0.3 * vol) (time + 0.1),
                         ExponentialRampToValueAtTime 0.001 (time + 0.8)],
      vn_inner = [param 0.3 [], param (b * 0.05) []]\<rparr>"

definition oystercatcherVoice_p2 :: "real \<Rightarrow> real \<Rightarrow> real \<Rightarrow> voice_nodes" where
  "oystercatcherVoice_p2 b vol time =
     \<lparr>vn_oscillators =
        [osc ''sine'' (param 440 [SetValueAtTime b time,
                                  ExponentialRampToValueAtTime (b * 1.3) (time + 0.08),
                                  SetValueAtTime (b * 1.5) (time + 0.14),
                                  ExponentialRampToValueAtTime (b * 1.1) (time + 0.35)])
           time (Some (time + 0.5)),
         osc ''sine'' (param 440 [SetValueAtTime (b * 2) time,
                                  ExponentialRampToValueAtTime (b * 2.5) (time + 0.08),
                                  SetValueAtTime (b * 3) (time + 0.14),
                                  ExponentialRampToValueAtTime (b * 2.2) (time + 0.35)])
           time (Some (time + 0.5))],
      vn_gain = param 1 [SetValueAtTime 0 time, LinearRampToValueAtTime (0.6 * vol) (time + 0.02),
                         ExponentialRampToValueAtTime (0.1 * vol) (time + 0.12),
                         LinearRampToValueAtTime (0.7 * vol) (time + 0.15),
                         ExponentialRampToValueAtTime 0.001 (time + 0.4)],
      vn_inner = [param 0.25 []]\<rparr>"

text \<open>
  \<open>createBowlVoice\<close> and its siblings, by the instrument's key in \<open>instrumentVolumes\<close>;
  the factor is what the voice applies to the scale frequency before the pitch bend. The
  bowl is the \<open>default\<close> of the \<open>switch\<close> in \<open>playNote\<close>.
\<close>

definition voice_of_p2 :: "string \<Rightarrow> string \<times> real \<times> (real \<Rightarrow> real \<Rightarrow> real \<Rightarrow> voice_nodes)" where
  "voice_of_p2 instrument =
     (if instrument = ''wind'' then (''wind'', 1, bansuriVoice_p2)
      else if instrument = ''strings'' then (''strings'', 1, sitarVoice_p2)
      else if instrument = ''horn'' then (''horn'', 1 / 2, hornVoice_p2)
      else if instrument = ''moorhen'' then (''moorhen'', 2, moorhenVoice_p2)
      else if instrument = ''oystercatcher'' then (''oystercatcher'', 4, oystercatcherVoice_p2)
      else (''bowls'', 1, bowlVoice_p2))"

text \<open>An exponential ramp to the target 0 is refused by the audio facility.\<close>

fun zero_exp_target :: "automation \<Rightarrow> bool" where
  "zero_exp_target (ExponentialRampToValueAtTime v t) = (v = 0)"
| "zero_exp_target (SetValueAtTime v t) = False"
| "zero_exp_target (LinearRampToValueAtTime v t) = False"
| "zero_exp_target (SetTargetAtTime v t tc) = False"
| "zero_exp_target (CancelScheduledValues t) = False"

definition refused_ramp :: "audio_param \<Rightarrow> bool" where
  "refused_ramp p = list_ex zero_exp_target (events p)"

definition add_voice :: "voice_nodes \<Rightarrow> audio_context \<Rightarrow> audio_context" where
  "add_voice v c = add_nodes (vn_oscillators v) (vn_gain v # vn_inner v) c"

text \<open>
  \<open>playNote(instrument, noteIndex)\<close>. An index outside the scale reads \<open>undefined\<close>, the
  frequency becomes \<open>NaN\<close> and the first frequency schedule throws; so does a volume that
  is no finite number. The returned voice object is dropped by every caller.
\<close>

definition playNote_p2 :: "string \<Rightarrow> int \<Rightarrow> synth_p2 \<Rightarrow> js_error + synth_p2" where
  "playNote_p2 instrument noteIdx s =
     (if \<not> isInitialized_p2 s then Inr s
      else
        case audioContext_p2 s of
          None \<Rightarrow> Inl TypeError
        | Some c \<Rightarrow>
            let key = fst (voice_of_p2 instrument);
                factor = fst (snd (voice_of_p2 instrument));
                create = snd (snd (voice_of_p2 instrument))
            in if 0 \<le> noteIdx \<and> noteIdx < int (length meditation_p2) then
                 (case instrumentVolumes_p2 s key of
                    Num vol \<Rightarrow>
                      let freq = meditation_p2 ! nat noteIdx;
                          b = freq * factor * 2 powr (pitchBend_p2 s / 12);
                          v = create b vol (currentTime c)
                      in if refused_ramp (vn_gain v) then Inl RangeError
                         else Inr (s\<lparr>audioContext_p2 := Some (add_voice v c)\<rparr>)
                  | _ \<Rightarrow> Inl TypeError)
               else Inl TypeError)"

subsection \<open>part_002: drone\<close>

text \<open>
  \<open>startDrone(volume)\<close> creates three tone oscillators and a slow modulation
  oscillator, each with its gain node, and keeps the four pairs in \<open>droneVoices\<close>.
\<close>

definition startDrone_p2 :: "real \<Rightarrow> synth_p2 \<Rightarrow> js_error + synth_p2" where
  "startDrone_p2 volume s =
     (if \<not> isInitialized_p2 s \<or> droneActive_p2 s then Inr s
      else
        case audioContext_p2 s of
          None \<Rightarrow> Inl TypeError
        | Some c \<Rightarrow>
            let b = 65.41 * 2 powr (droneBaseTone_p2 s / 12);
                time = currentTime c;
                drone = (\<lambda>ty f. \<lparr>otype = ty, frequency = param f [], detune = param 0 [],
                                   startTime = Some time, stopTime = None\<rparr>);
                os = [drone ''sine'' b, drone ''sine'' (b * 2), drone ''triangle'' (b * 3),
                      drone ''sine'' 0.1];
                gs = [param 1 [SetValueAtTime 0 time, LinearRampToValueAtTime volume (time + 2)],
                      param 0.3 [], param 0.15 [], param 1 []];
                refs = map (\<lambda>i. (length (oscillators c) + i, length (gainNodes c) + i)) [0..<4]
            in Inr (s\<lparr>audioContext_p2 := Some (add_nodes os gs c), droneVoices_p2 := refs,
                      droneActive_p2 := True, droneVolume_p2 := Some volume\<rparr>))"

definition ramp_gain :: "automation \<Rightarrow> nat \<Rightarrow> audio_context \<Rightarrow> audio_context" where
  "ramp_gain e g c =
     (if g < length (gainNodes c) then c\<lparr>gainNodes := (gainNodes c)[g := schedule e (gainNodes c ! g)]\<rparr>
      else c)"

definition stopDrone_p2 :: "synth_p2 \<Rightarrow> js_error + synth_p2" where
  "stopDrone_p2 s =
     (if \<not> droneActive_p2 s then Inr s
      else
        case audioContext_p2 s of
          None \<Rightarrow> Inl TypeError
        | Some c \<Rightarrow>
            let time = currentTime c in
            Inr (s\<lparr>audioContext_p2 :=
                     Some (fold (ramp_gain (LinearRampToValueAtTime 0 (time + 1)))
                             (map snd (droneVoices_p2 s)) c),
                   timeouts_p2 := timeouts_p2 s @ map (\<lambda>v. (1200, fst v)) (droneVoices_p2 s),
                   droneActive_p2 := False, droneVoices_p2 := []\<rparr>))"

text \<open>A pending callback stops the one oscillator it holds; then all of them in turn.\<close>

definition run_timeout_p2 :: "real \<times> nat \<Rightarrow> synth_p2 \<Rightarrow> synth_p2" where
  "run_timeout_p2 cb s = s\<lparr>audioContext_p2 := map_option (stop_oscillator (snd cb)) (audioContext_p2 s)\<rparr>"

definition run_timeouts_p2 :: "synth_p2 \<Rightarrow> synth_p2" where
  "run_timeouts_p2 s = fold run_timeout_p2 (timeouts_p2 s) (s\<lparr>timeouts_p2 := []\<rparr>)"

definition setDroneVolume_p2 :: "real \<Rightarrow> synth_p2 \<Rightarrow> js_error + synth_p2" where
  "setDroneVolume_p2 volume s =
     (let s' = s\<lparr>droneVolume_p2 := Some volume\<rparr> in
      if droneActive_p2 s' \<and> droneVoices_p2 s' \<noteq> [] then
        (case audioContext_p2 s' of
           None \<Rightarrow> Inl TypeError
         | Some c \<Rightarrow>
             Inr (s'\<lparr>audioContext_p2 :=
                       Some (ramp_gain (LinearRampToValueAtTime volume (currentTime c + 0.1))
                               (snd (hd (droneVoices_p2 s'))) c)\<rparr>))
      else Inr s')"

definition ramp_frequency :: "automation \<Rightarrow> nat \<Rightarrow> audio_context \<Rightarrow> audio_context" where
  "ramp_frequency e h c =
     (if h < length (oscillators c) then
        c\<lparr>oscillators := (oscillators c)
            [h := (oscillators c ! h)\<lparr>frequency := schedule e (frequency (oscillators c ! h))\<rparr>]\<rparr>
      else c)"

definition setDroneBaseTone_p2 :: "real \<Rightarrow> synth_p2 \<Rightarrow> js_error + synth_p2" where
  "setDroneBaseTone_p2 semitones s =
     (let s' = s\<lparr>droneBaseTone_p2 := semitones\<rparr> in
      if droneActive_p2 s' then
        (case audioContext_p2 s' of
           None \<Rightarrow> Inl TypeError
         | Some c \<Rightarrow>
             let b = 65.41 * 2 powr (semitones / 12);
                 time = currentTime c;
                 vs = droneVoices_p2 s'
             in if length vs \<ge> 3 then
                  Inr (s'\<lparr>audioContext_p2 := Some
                     (ramp_frequency (LinearRampToValueAtTime (b * 3) (time + 0.5)) (fst (vs ! 2))
                       (ramp_frequency (LinearRampToValueAtTime (b * 2) (time + 0.5)) (fst (vs ! 1))
                         (ramp_frequency (LinearRampToValueAtTime b (time + 0.5)) (fst (vs ! 0)) c)))\<rparr>)
                else Inr s')
      else Inr s')"

definition setInstrumentVolume_p2 :: "string \<Rightarrow> jsval \<Rightarrow> synth_p2 \<Rightarrow> synth_p2" where
  "setInstrumentVolume_p2 instrument v s =
     s\<lparr>instrumentVolumes_p2 := (instrumentVolumes_p2 s)(instrument := v)\<rparr>"


subsection \<open>part_002: sequencer\<close>

text \<open>
  \<open>playSequencerStep\<close>, the timer's callback. For each instrument in turn a draw below
  the randomness picks a uniformly drawn step to read, otherwise the current step is
  read; \<open>k\<close> counts the draws made so far. An active cell is played. The pointer then
  moves on by one. The notification of the page is not modelled.
\<close>

definition seq_instruments :: "string list" where
  "seq_instruments = [''bowls'', ''wind'', ''strings'', ''horn'', ''moorhen'', ''oystercatcher'']"

fun play_rows_p2 :: "(nat \<Rightarrow> real) \<Rightarrow> nat \<Rightarrow> string list \<Rightarrow> synth_p2 \<Rightarrow> js_error + synth_p2" where
  "play_rows_p2 rnd k [] s = Inr s"
| "play_rows_p2 rnd k (inst # rest) s =
     (let q = sequencer_p2 s;
          jump = (rnd k < randomness q);
          stepToPlay = (if jump then \<lfloor>rnd (k + 1) * 16\<rfloor> else currentStep q);
          k' = (if jump then k + 2 else k + 1)
      in case seq_cell q inst stepToPlay of
           Some stepData \<Rightarrow>
             if active stepData then
               (case playNote_p2 inst (noteIndex stepData) s of
                  Inl e \<Rightarrow> Inl e
                | Inr s' \<Rightarrow> play_rows_p2 rnd k' rest s')
             else play_rows_p2 rnd k' rest s
         | None \<Rightarrow> play_rows_p2 rnd k' rest s)"

definition playSequencerStep_p2 :: "(nat \<Rightarrow> real) \<Rightarrow> synth_p2 \<Rightarrow> js_error + synth_p2" where
  "playSequencerStep_p2 rnd s =
     (case play_rows_p2 rnd 0 seq_instruments s of
        Inl e \<Rightarrow> Inl e
      | Inr s' \<Rightarrow>
          Inr (s'\<lparr>sequencer_p2 := (sequencer_p2 s')
                 \<lparr>currentStep := js_rem (currentStep (sequencer_p2 s') + 1) 16\<rparr>\<rparr>))"

definition startSequencer_p2 :: "nat \<Rightarrow> synth_p2 \<Rightarrow> synth_p2" where
  "startSequencer_p2 timer s =
     (if isPlaying (sequencer_p2 s) then s
      else s\<lparr>sequencer_p2 := (sequencer_p2 s)
               \<lparr>isPlaying := True, currentStep := 0, intervalId := Some timer\<rparr>\<rparr>)"

definition stopSequencer_p2 :: "synth_p2 \<Rightarrow> synth_p2" where
  "stopSequencer_p2 s =
     (if \<not> isPlaying (sequencer_p2 s) then s
      else s\<lparr>sequencer_p2 := (sequencer_p2 s)\<lparr>isPlaying := False, intervalId := None\<rparr>\<rparr>)"

section \<open>part_000: the HimalayanSynth engine\<close>

text \<open>
  The engine of part_000 (with part_001 as its page script). A voice object holds
  references to its oscillators and gains in the context, for the drone also its
  modulation oscillator and its ratio to the base frequency. \<open>activeVoices\<close> is the
  \<open>Map\<close> from key codes to voices, in insertion order. \<open>timeouts\<close> are the pending
  callbacks of \<open>startDrone\<close>: the delay and the ratio of the voice to create.
\<close>

record voice_p0 =
  oscillators_v :: "nat list"
  gains_v :: "nat list"
  lfo_v :: "nat option"
  ratio_v :: "real option"

record expression =
  filterCutoff :: real
  resonance :: real
  reverbMix :: real
  delayTime :: real
  delayFeedback :: real
  droneVolume :: real
  bellVolume :: real
  pitchBend_e :: real

record synth_p0 =
  audioContext_p0 :: "audio_context option"
  masterGain_p0 :: "audio_param option"
  masterFilter_p0 :: "audio_param option"
  reverbWet_p0 :: "audio_param option"
  delayFeedbackGain_p0 :: "audio_param option"
  activeVoices_p0 :: "(string \<times> voice_p0) list"
  droneVoices_p0 :: "voice_p0 list"
  isInitialized_p0 :: bool
  sequencer_p0 :: sequencer
  instrumentVolumes_p0 :: "string \<rightharpoonup> real"
  droneBaseFrequency_p0 :: real
  droneBaseSemitones_p0 :: real
  expression_p0 :: expression
  timeouts_p0 :: "(real \<times> real) list"

definition new_synth_p0 :: synth_p0 where
  "new_synth_p0 =
     \<lparr>audioContext_p0 = None, masterGain_p0 = None, masterFilter_p0 = None, reverbWet_p0 = None,
      delayFeedbackGain_p0 = None, activeVoices_p0 = [], droneVoices_p0 = [],
      isInitialized_p0 = False, sequencer_p0 = initial_sequencer,
      instrumentVolumes_p0 =
        [''bowls'' \<mapsto> 0.7, ''wind'' \<mapsto> 0.6, ''strings'' \<mapsto> 0.7, ''horn'' \<mapsto> 0.6,
         ''moorhen'' \<mapsto> 0.5, ''oystercatcher'' \<mapsto> 0.4],
      droneBaseFrequency_p0 = 65.41, droneBaseSemitones_p0 = 0,
      expression_p0 =
        \<lparr>filterCutoff = 2000, resonance = 1, reverbMix = 0.5, delayTime = 0.4,
         delayFeedback = 0.3, droneVolume = 0.3, bellVolume = 0.7, pitchBend_e = 0\<rparr>,
      timeouts_p0 = []\<rparr>"

definition init_p0 :: "synth_p0 \<Rightarrow> synth_p0" where
  "init_p0 s =
     (if isInitialized_p0 s then s
      else s\<lparr>audioContext_p0 := Some new_context, masterGain_p0 := Some (param 0.7 []),
             reverbWet_p0 := Some (param (reverbMix (expression_p0 s)) []),
             delayFeedbackGain_p0 := Some (param (delayFeedback (expression_p0 s)) []),
             masterFilter_p0 := Some (param 4000 []), isInitialized_p0 := True\<rparr>)"

definition meditation_p0 :: "real list" where
  "meditation_p0 =
     [130.81, 155.56, 174.61, 196.00, 233.08, 261.63, 311.13, 349.23, 392.00, 466.16, 523.25]"

definition droneRatios :: "real list" where
  "droneRatios = [1, 1.5, 2, 3]"

definition keyMap :: "(string \<times> nat) list" where
  "keyMap =
     [(''a'', 0), (''w'', 1), (''s'', 2), (''e'', 3), (''d'', 4), (''f'', 5), (''t'', 6), (''g'', 7),
      (''y'', 8), (''h'', 9), (''j'', 10), (''i'', 11), (''k'', 12), (''o'', 13), (''l'', 14)]"

text \<open>\<open>toLowerCase\<close> on the letters A to Z; no other character reaches a key of \<open>keyMap\<close>
  here.\<close>

definition toLowerCase :: "string \<Rightarrow> string" where
  "toLowerCase k =
     map (\<lambda>ch. if 65 \<le> (of_char ch :: nat) \<and> (of_char ch :: nat) \<le> 90
                then char_of ((of_char ch :: nat) + 32) else ch) k"

subsection \<open>part_000: voices\<close>

definition osc_d :: "string \<Rightarrow> audio_param \<Rightarrow> real \<Rightarrow> real \<Rightarrow> real option \<Rightarrow> oscillator" where
  "osc_d ty f d start stop =
     \<lparr>otype = ty, frequency = f, detune = param d [], startTime = Some start, stopTime = stop\<rparr>"

text \<open>
  A voice's nodes are entered into the context; the voice object refers to all the
  oscillators and to the gains \<open>gs\<close>, while the gains \<open>others\<close> are not kept in it.
\<close>

definition make_voice ::
  "oscillator list \<Rightarrow> audio_param list \<Rightarrow> audio_param list \<Rightarrow> audio_context
     \<Rightarrow> voice_p0 \<times> audio_context" where
  "make_voice os gs others c =
     (\<lparr>oscillators_v = map (\<lambda>i. length (oscillators c) + i) [0..<length os],
       gains_v = map (\<lambda>i. length (gainNodes c) + i) [0..<length gs],
       lfo_v = None, ratio_v = None\<rparr>,
      add_nodes os (gs @ others) c)"

text \<open>
  \<open>createBowlVoice(frequency, velocity)\<close>: harmonic i draws its detune (\<open>rnd (2 i)\<close>) and
  then its decay time (\<open>rnd (2 i + 1)\<close>). The strike's noise gain has a fixed value.
\<close>

definition bowl_harmonics :: "real list" where
  "bowl_harmonics = [1, 2.0, 2.92, 3.0, 4.16, 5.43]"

definition bowl_harmonicGains :: "real list" where
  "bowl_harmonicGains = [1, 0.6, 0.4, 0.25, 0.15, 0.08]"

definition bowl_decayTime :: "(nat \<Rightarrow> real) \<Rightarrow> nat \<Rightarrow> real" where
  "bowl_decayTime rnd i = 2 + rnd (2 * i + 1) * 2"

definition bowl_oscillators_p0 :: "real \<Rightarrow> real \<Rightarrow> (nat \<Rightarrow> real) \<Rightarrow> real \<Rightarrow> oscillator list" where
  "bowl_oscillators_p0 freq bend rnd now =
     map (\<lambda>i. osc_d (if i = 0 then ''sine'' else if even i then ''triangle'' else ''sine'')
                 (param (freq * bowl_harmonics ! i * (1 + bend * 0.05)) [])
                 ((rnd (2 * i) - 0.5) * 5) now (Some (now + bowl_decayTime rnd i + 0.1)))
       [0..<length bowl_harmonics]"

definition bowl_gains_p0 :: "real \<Rightarrow> real \<Rightarrow> (nat \<Rightarrow> real) \<Rightarrow> real \<Rightarrow> audio_param list" where
  "bowl_gains_p0 velocity bell rnd now =
     map (\<lambda>i. param 0
            [SetValueAtTime 0 now,
             LinearRampToValueAtTime (bowl_harmonicGains ! i * velocity * bell * 0.3)
               (now + (0.01 + real i * 0.02)),
             ExponentialRampToValueAtTime 0.001 (now + bowl_decayTime rnd i)])
       [0..<length bowl_harmonics]"

definition createBowlVoice ::
  "real \<Rightarrow> real \<Rightarrow> (nat \<Rightarrow> real) \<Rightarrow> expression \<Rightarrow> audio_context \<Rightarrow> voice_p0 \<times> audio_context" where
  "createBowlVoice freq velocity rnd e c =
     make_voice (bowl_oscillators_p0 freq (pitchBend_e e) rnd (currentTime c))
       (bowl_gains_p0 velocity (bellVolume e) rnd (currentTime c))
       [param (velocity * 0.15) []] c"

text \<open>\<open>createDroneVoice(frequency)\<close>; the one draw sets the rate of the modulation oscillator,
  which comes last among the voice's oscillators in the context.\<close>

definition drone_detunings :: "real list" where
  "drone_detunings = [-5, -2, 0, 2, 5, 7]"

definition drone_oscillators_p0 :: "real \<Rightarrow> (nat \<Rightarrow> real) \<Rightarrow> real \<Rightarrow> oscillator list" where
  "drone_oscillators_p0 freq rnd now =
     map (\<lambda>i. osc_d (if even i then ''sawtooth'' else ''triangle'') (param freq [])
                 (drone_detunings ! i) now None)
       [0..<length drone_detunings]
     @ [osc_d ''sine'' (param (0.1 + rnd 0 * 0.2) []) 0 now None]"

definition drone_gains_p0 :: "real \<Rightarrow> real \<Rightarrow> audio_param list" where
  "drone_gains_p0 vol now =
     map (\<lambda>i. param 0 [SetValueAtTime 0 now,
                        LinearRampToValueAtTime (vol / real (length drone_detunings)) (now + 3)])
       [0..<length drone_detunings]"

definition createDroneVoice ::
  "real \<Rightarrow> (nat \<Rightarrow> real) \<Rightarrow> expression \<Rightarrow> audio_context \<Rightarrow> voice_p0 \<times> audio_context" where
  "createDroneVoice freq rnd e c =
     (let n = length (oscillators c);
          vc = make_voice (drone_oscillators_p0 freq rnd (currentTime c))
                 (drone_gains_p0 (droneVolume e) (currentTime c)) [param 3 []] c
      in ((fst vc)\<lparr>oscillators_v := map (\<lambda>i. n + i) [0..<length drone_detunings],
                    lfo_v := Some (n + length drone_detunings)\<rparr>,
          snd vc))"

text \<open>\<open>createWindVoice(frequency, velocity, duration)\<close>; the draw sets the vibrato rate.\<close>

definition wind_oscillators_p0 :: "real \<Rightarrow> real \<Rightarrow> (nat \<Rightarrow> real) \<Rightarrow> real \<Rightarrow> oscillator list" where
  "wind_oscillators_p0 freq duration rnd now =
     [osc_d ''sine'' (param freq []) 0 now (Some (now + duration + 0.1)),
      osc_d ''sine'' (param (5 + rnd 0 * 2) []) 0 now (Some (now + duration + 0.5))]"

definition wind_gains_p0 :: "real \<Rightarrow> real \<Rightarrow> real \<Rightarrow> audio_param list" where
  "wind_gains_p0 velocity duration now =
     [param 0 [SetValueAtTime 0 now, LinearRampToValueAtTime (velocity * 0.4) (now + 0.1),
               SetValueAtTime (velocity * 0.4) (now + duration - 0.15),
               ExponentialRampToValueAtTime 0.001 (now + duration)],
      param (velocity * 0.1)
              [SetValueAtTime 0 now, LinearRampToValueAtTime (velocity * 0.08) (now + 0.05),
               ExponentialRampToValueAtTime 0.001 (now + duration)]]"

definition createWindVoice ::
  "real \<Rightarrow> real \<Rightarrow> real \<Rightarrow> (nat \<Rightarrow> real) \<Rightarrow> audio_context \<Rightarrow> voice_p0 \<times> audio_context" where
  "createWindVoice freq velocity duration rnd c =
     make_voice (wind_oscillators_p0 freq duration rnd (currentTime c))
       (wind_gains_p0 velocity duration (currentTime c)) [param (freq * 0.015) []] c"

text \<open>\<open>createStringVoice(frequency, velocity)\<close>; draw i detunes harmonic i.\<close>

definition string_harmonics :: "real list" where
  "string_harmonics = [1, 2, 3, 4, 5, 6]"

definition string_harmonicGains :: "real list" where
  "string_harmonicGains = [1, 0.7, 0.5, 0.3, 0.2, 0.1]"

definition string_oscillators_p0 :: "real \<Rightarrow> (nat \<Rightarrow> real) \<Rightarrow> real \<Rightarrow> oscillator list" where
  "string_oscillators_p0 freq rnd now =
     map (\<lambda>i. osc_d (if i = 0 then ''sawtooth'' else if even i then ''triangle'' else ''square'')
                 (param (freq * string_harmonics ! i) [])
                 ((rnd i - 0.5) * 8 + real i * 2) now
                 (Some (now + (1.5 - real i * 0.15) + 0.1)))
       [0..<length string_harmonics]
     @ [osc_d ''sine'' (param (freq / 2) []) 0 now (Some (now + 2.1))]"

definition string_gains_p0 :: "real \<Rightarrow> real \<Rightarrow> audio_param list" where
  "string_gains_p0 velocity now =
     map (\<lambda>i. param 0
            [SetValueAtTime 0 now,
             LinearRampToValueAtTime (string_harmonicGains ! i * velocity * 0.25) (now + 0.005),
             ExponentialRampToValueAtTime 0.001 (now + (1.5 - real i * 0.15))])
       [0..<length string_harmonics]
     @ [param 0 [SetValueAtTime 0 (now + 0.1), LinearRampToValueAtTime (velocity * 0.05) (now + 0.3),
                 ExponentialRampToValueAtTime 0.001 (now + 2)]]"

definition createStringVoice ::
  "real \<Rightarrow> real \<Rightarrow> (nat \<Rightarrow> real) \<Rightarrow> audio_context \<Rightarrow> voice_p0 \<times> audio_context" where
  "createStringVoice freq velocity rnd c =
     make_voice (string_oscillators_p0 freq rnd (currentTime c))
       (string_gains_p0 velocity (currentTime c)) [] c"

text \<open>\<open>createHornVoice(frequency, velocity, duration)\<close>; draw i detunes harmonic i, the
  ninth draw sets the vibrato rate.\<close>

definition horn_harmonics_p0 :: "real list" where
  "horn_harmonics_p0 = [1, 2, 2.98, 4.01, 5.03, 6.02, 7.01, 8.02]"

definition horn_harmonicGains_p0 :: "real list" where
  "horn_harmonicGains_p0 = [1, 0.8, 0.5, 0.35, 0.25, 0.18, 0.12, 0.08]"

definition horn_oscillators_p0 :: "real \<Rightarrow> real \<Rightarrow> (nat \<Rightarrow> real) \<Rightarrow> real \<Rightarrow> oscillator list" where
  "horn_oscillators_p0 b duration rnd now =
     map (\<lambda>i. osc_d (if i < 3 then ''sawtooth'' else ''triangle'')
                 (param (b * horn_harmonics_p0 ! i) []) ((rnd i - 0.5) * 15) now
                 (Some (now + duration + 0.1)))
       [0..<length horn_harmonics_p0]
     @ [osc_d ''sine'' (param (2 + rnd (length horn_harmonics_p0)) []) 0 (now + 0.5)
          (Some (now + duration))]"

definition horn_gains_p0 :: "real \<Rightarrow> real \<Rightarrow> real \<Rightarrow> audio_param list" where
  "horn_gains_p0 velocity duration now =
     map (\<lambda>i. let sustainLevel = horn_harmonicGains_p0 ! i * velocity * 0.2 in
            param 0
              [SetValueAtTime 0 now,
               LinearRampToValueAtTime sustainLevel (now + (0.3 + real i * 0.05)),
               LinearRampToValueAtTime (sustainLevel * 1.2) (now + duration * 0.5),
               LinearRampToValueAtTime (sustainLevel * 0.8) (now + duration * 0.8),
               ExponentialRampToValueAtTime 0.001 (now + duration)])
       [0..<length horn_harmonics_p0]
     @ [param 0 [SetValueAtTime 0 now, LinearRampToValueAtTime (velocity * 0.04) (now + 0.4),
                 LinearRampToValueAtTime (velocity * 0.02) (now + duration * 0.8),
                 ExponentialRampToValueAtTime 0.001 (now + duration)]]"

definition createHornVoice ::
  "real \<Rightarrow> real \<Rightarrow> real \<Rightarrow> (nat \<Rightarrow> real) \<Rightarrow> audio_context \<Rightarrow> voice_p0 \<times> audio_context" where
  "createHornVoice freq velocity duration rnd c =
     make_voice (horn_oscillators_p0 (freq / 2) duration rnd (currentTime c))
       (horn_gains_p0 velocity duration (currentTime c)) [param (freq / 2 * 0.008) []] c"

text \<open>
  \<open>createMoorhenVoice(frequency, velocity)\<close>: the first draw gives one to three chirps;
  each chirp then draws its waveform, its pitch variation, its sweep direction and its
  vibrato rate, and creates the tone, the vibrato and the overtone.
\<close>

definition moorhen_numChirps :: "(nat \<Rightarrow> real) \<Rightarrow> nat" where
  "moorhen_numChirps rnd = nat (1 + \<lfloor>rnd 0 * 3\<rfloor>)"

definition moorhen_chirp_oscillators :: "real \<Rightarrow> (nat \<Rightarrow> real) \<Rightarrow> real \<Rightarrow> nat \<Rightarrow> oscillator list" where
  "moorhen_chirp_oscillators b rnd now chirp =
     (let chirpStart = now + real chirp * (0.12 + 0.08);
          pitchVariation = b * (0.1 + rnd (4 * chirp + 2) * 0.2);
          sweepUp = (rnd (4 * chirp + 3) > 0.5)
      in [osc_d (if rnd (4 * chirp + 1) > 0.5 then ''sine'' else ''triangle'')
            (param b [SetValueAtTime (if sweepUp then b else b + pitchVariation) chirpStart,
                      ExponentialRampToValueAtTime (if sweepUp then b + pitchVariation else b)
                        (chirpStart + 0.12 * 0.7),
                      ExponentialRampToValueAtTime (b + pitchVariation * 0.5) (chirpStart + 0.12)])
            0 chirpStart (Some (chirpStart + 0.12 + 0.05)),
          osc_d ''sine'' (param (25 + rnd (4 * chirp + 4) * 20) []) 0 chirpStart
            (Some (chirpStart + 0.12 + 0.05)),
          osc_d ''sine'' (param (b * 2) []) 0 chirpStart (Some (chirpStart + 0.12 + 0.05))])"

definition moorhen_chirp_gains :: "real \<Rightarrow> real \<Rightarrow> nat \<Rightarrow> audio_param list" where
  "moorhen_chirp_gains velocity now chirp =
     (let chirpStart = now + real chirp * (0.12 + 0.08)
      in [param 0 [SetValueAtTime 0 chirpStart,
                   LinearRampToValueAtTime (velocity * 0.4) (chirpStart + 0.01),
                   SetValueAtTime (velocity * 0.35) (chirpStart + 0.12 * 0.3),
                   ExponentialRampToValueAtTime 0.001 (chirpStart + 0.12)],
          param 0 [SetValueAtTime 0 chirpStart,
                   LinearRampToValueAtTime (velocity * 0.15) (chirpStart + 0.01),
                   ExponentialRampToValueAtTime 0.001 (chirpStart + 0.12 * 0.8)]])"

definition createMoorhenVoice ::
  "real \<Rightarrow> real \<Rightarrow> (nat \<Rightarrow> real) \<Rightarrow> audio_context \<Rightarrow> voice_p0 \<times> audio_context" where
  "createMoorhenVoice freq velocity rnd c =
     (let chirps = [0..<moorhen_numChirps rnd] in
      make_voice (concat (map (moorhen_chirp_oscillators (freq * 2) rnd (currentTime c)) chirps))
        (concat (map (moorhen_chirp_gains velocity (currentTime c)) chirps))
        (map (\<lambda>_. param (freq * 2 * 0.03) []) chirps) c)"

text \<open>\<open>createOystercatcherVoice(frequency, velocity)\<close>: the draw gives two or three calls,
  each a tone and a harmonic.\<close>

definition oystercatcher_numCalls :: "(nat \<Rightarrow> real) \<Rightarrow> nat" where
  "oystercatcher_numCalls rnd = nat (2 + \<lfloor>rnd 0 * 2\<rfloor>)"

definition oystercatcher_call_oscillators :: "real \<Rightarrow> real \<Rightarrow> nat \<Rightarrow> oscillator list" where
  "oystercatcher_call_oscillators b now call =
     (let callStart = now + real call * (0.08 + 0.12)
      in [osc_d ''sine''
            (param 440 [SetValueAtTime (b * 0.9) callStart,
                        LinearRampToValueAtTime (b * 1.15) (callStart + 0.08 * 0.3),
                        LinearRampToValueAtTime (b * 1.1) (callStart + 0.08)])
            0 callStart (Some (callStart + 0.08 + 0.02)),
          osc_d ''sine''
            (param 440 [SetValueAtTime (b * 1.8) callStart,
                        LinearRampToValueAtTime (b * 2.3) (callStart + 0.08 * 0.3)])
            0 callStart (Some (callStart + 0.08 + 0.02))])"

definition oystercatcher_call_gains :: "real \<Rightarrow> real \<Rightarrow> nat \<Rightarrow> audio_param list" where
  "oystercatcher_call_gains velocity now call =
     (let callStart = now + real call * (0.08 + 0.12)
      in [param 0 [SetValueAtTime 0 callStart,
                   LinearRampToValueAtTime (velocity * 0.5) (callStart + 0.005),
                   SetValueAtTime (velocity * 0.45) (callStart + 0.08 * 0.5),
                   ExponentialRampToValueAtTime 0.001 (callStart + 0.08)],
          param 0 [SetValueAtTime 0 callStart,
                   LinearRampToValueAtTime (velocity * 0.2) (callStart + 0.005),
                   ExponentialRampToValueAtTime 0.001 (callStart + 0.08 * 0.7)]])"

definition createOystercatcherVoice ::
  "real \<Rightarrow> real \<Rightarrow> (nat \<Rightarrow> real) \<Rightarrow> audio_context \<Rightarrow> voice_p0 \<times> audio_context" where
  "createOystercatcherVoice freq velocity rnd c =
     (let calls = [0..<oystercatcher_numCalls rnd] in
      make_voice (concat (map (oystercatcher_call_oscillators (freq * 4) (currentTime c)) calls))
        (concat (map (oystercatcher_call_gains velocity (currentTime c)) calls)) [] c)"

subsection \<open>part_000: playing notes\<close>

text \<open>
  The guarded entry points. Each returns at once while the engine is not initialised.
  A frequency that is \<open>NaN\<close> (\<open>None\<close> here) is refused by the first oscillator, and so
  is a \<open>null\<close> context. The voice object a method returns is dropped by its callers,
  except in \<open>playNote\<close>, which enters it in \<open>activeVoices\<close>.
\<close>

definition play_voice_p0 ::
  "(real \<Rightarrow> audio_context \<Rightarrow> voice_p0 \<times> audio_context) \<Rightarrow> real option \<Rightarrow> synth_p0
     \<Rightarrow> js_error + synth_p0" where
  "play_voice_p0 create freq s =
     (if \<not> isInitialized_p0 s then Inr s
      else
        case (audioContext_p0 s, freq) of
          (Some c, Some f) \<Rightarrow> Inr (s\<lparr>audioContext_p0 := Some (snd (create f c))\<rparr>)
        | _ \<Rightarrow> Inl TypeError)"

definition strikeBowl :: "real option \<Rightarrow> real \<Rightarrow> (nat \<Rightarrow> real) \<Rightarrow> synth_p0 \<Rightarrow> js_error + synth_p0" where
  "strikeBowl freq velocity rnd s =
     play_voice_p0 (\<lambda>f. createBowlVoice f velocity rnd (expression_p0 s)) freq s"

definition playWind_p0 :: "real option \<Rightarrow> real \<Rightarrow> (nat \<Rightarrow> real) \<Rightarrow> synth_p0 \<Rightarrow> js_error + synth_p0" where
  "playWind_p0 freq velocity rnd s = play_voice_p0 (\<lambda>f. createWindVoice f velocity 0.8 rnd) freq s"

definition playString_p0 :: "real option \<Rightarrow> real \<Rightarrow> (nat \<Rightarrow> real) \<Rightarrow> synth_p0 \<Rightarrow> js_error + synth_p0" where
  "playString_p0 freq velocity rnd s = play_voice_p0 (\<lambda>f. createStringVoice f velocity rnd) freq s"

definition playHorn_p0 :: "real option \<Rightarrow> real \<Rightarrow> (nat \<Rightarrow> real) \<Rightarrow> synth_p0 \<Rightarrow> js_error + synth_p0" where
  "playHorn_p0 freq velocity rnd s = play_voice_p0 (\<lambda>f. createHornVoice f velocity 2.5 rnd) freq s"

definition playMoorhen_p0 :: "real option \<Rightarrow> real \<Rightarrow> (nat \<Rightarrow> real) \<Rightarrow> synth_p0 \<Rightarrow> js_error + synth_p0" where
  "playMoorhen_p0 freq velocity rnd s = play_voice_p0 (\<lambda>f. createMoorhenVoice f velocity rnd) freq s"

definition playOystercatcher_p0 ::
  "real option \<Rightarrow> real \<Rightarrow> (nat \<Rightarrow> real) \<Rightarrow> synth_p0 \<Rightarrow> js_error + synth_p0" where
  "playOystercatcher_p0 freq velocity rnd s =
     play_voice_p0 (\<lambda>f. createOystercatcherVoice f velocity rnd) freq s"

text \<open>\<open>playNote(keyCode)\<close>, from the keyboard.\<close>

definition playNote :: "string \<Rightarrow> (nat \<Rightarrow> real) \<Rightarrow> synth_p0 \<Rightarrow> js_error + synth_p0" where
  "playNote keyCode rnd s =
     (if \<not> isInitialized_p0 s then Inr s
      else
        case map_of keyMap (toLowerCase keyCode) of
          None \<Rightarrow> Inr s
        | Some scaleIndex \<Rightarrow>
            if map_of (activeVoices_p0 s) keyCode \<noteq> None then Inr s
            else
              (case audioContext_p0 s of
                 None \<Rightarrow> Inl TypeError
               | Some c \<Rightarrow>
                   let freq = meditation_p0 ! (scaleIndex mod length meditation_p0)
                                * 2 powr real (scaleIndex div length meditation_p0);
                       vc = createBowlVoice freq 0.8 rnd (expression_p0 s) c
                   in Inr (s\<lparr>audioContext_p0 := Some (snd vc),
                             activeVoices_p0 := activeVoices_p0 s @ [(keyCode, fst vc)]\<rparr>)))"

definition stopNote :: "string \<Rightarrow> synth_p0 \<Rightarrow> js_error + synth_p0" where
  "stopNote keyCode s =
     (case map_of (activeVoices_p0 s) keyCode of
        None \<Rightarrow> Inr s
      | Some voice \<Rightarrow>
          (case audioContext_p0 s of
             None \<Rightarrow> Inl TypeError
           | Some c \<Rightarrow>
               let now = currentTime c;
                   release = (\<lambda>g. ramp_gain (ExponentialRampToValueAtTime 0.001 (now + 0.3)) g
                                    \<circ> ramp_gain (CancelScheduledValues now) g)
               in Inr (s\<lparr>audioContext_p0 := Some (fold release (gains_v voice) c),
                         activeVoices_p0 := filter (\<lambda>kv. fst kv \<noteq> keyCode) (activeVoices_p0 s)\<rparr>)))"



subsection \<open>part_000: drone\<close>

text \<open>
  \<open>startDrone\<close> only sets four timers; a voice enters \<open>droneVoices\<close> when its timer
  fires, with the base frequency read at that moment. \<open>run_timeouts_p0\<close> lets every
  pending timer fire, the shorter delay first; \<open>rnds k\<close> are the draws of the k-th
  callback to run.
\<close>

definition startDrone_p0 :: "synth_p0 \<Rightarrow> synth_p0" where
  "startDrone_p0 s =
     (if \<not> isInitialized_p0 s then s
      else if droneVoices_p0 s \<noteq> [] then s
      else s\<lparr>timeouts_p0 := timeouts_p0 s
                @ map (\<lambda>i. (real i * 500, droneRatios ! i)) [0..<length droneRatios]\<rparr>)"

definition run_timeout_p0 :: "(nat \<Rightarrow> real) \<Rightarrow> real \<times> real \<Rightarrow> synth_p0 \<Rightarrow> js_error + synth_p0" where
  "run_timeout_p0 rnd cb s =
     (case audioContext_p0 s of
        None \<Rightarrow> Inl TypeError
      | Some c \<Rightarrow>
          let ratio = snd cb;
              vc = createDroneVoice (droneBaseFrequency_p0 s * ratio) rnd (expression_p0 s) c
          in Inr (s\<lparr>audioContext_p0 := Some (snd vc),
                    droneVoices_p0 := droneVoices_p0 s @ [(fst vc)\<lparr>ratio_v := Some ratio\<rparr>]\<rparr>))"

fun run_callbacks_p0 ::
  "(nat \<Rightarrow> nat \<Rightarrow> real) \<Rightarrow> nat \<Rightarrow> (real \<times> real) list \<Rightarrow> synth_p0 \<Rightarrow> js_error + synth_p0" where
  "run_callbacks_p0 rnds k [] s = Inr s"
| "run_callbacks_p0 rnds k (cb # cbs) s =
     (case run_timeout_p0 (rnds k) cb s of
        Inl e \<Rightarrow> Inl e
      | Inr s' \<Rightarrow> run_callbacks_p0 rnds (Suc k) cbs s')"

definition run_timeouts_p0 :: "(nat \<Rightarrow> nat \<Rightarrow> real) \<Rightarrow> synth_p0 \<Rightarrow> js_error + synth_p0" where
  "run_timeouts_p0 rnds s =
     run_callbacks_p0 rnds 0 (sort_key fst (timeouts_p0 s)) (s\<lparr>timeouts_p0 := []\<rparr>)"

text \<open>
  \<open>setDroneBase(semitones)\<close>. Each oscillator of each drone voice holds its present
  frequency (\<open>reading h\<close>, what \<open>osc.frequency.value\<close> returns for oscillator \<open>h\<close>) and
  glides to the voice's ratio times the new base. The note name returned for the page is
  not modelled.
\<close>

definition glide :: "real \<Rightarrow> (nat \<Rightarrow> real) \<Rightarrow> real \<Rightarrow> nat \<Rightarrow> audio_context \<Rightarrow> audio_context" where
  "glide now reading targetFreq h c =
     ramp_frequency (LinearRampToValueAtTime targetFreq (now + 0.3)) h
       (ramp_frequency (SetValueAtTime (reading h) now) h
          (ramp_frequency (CancelScheduledValues now) h c))"

definition glide_voice :: "real \<Rightarrow> (nat \<Rightarrow> real) \<Rightarrow> real \<Rightarrow> voice_p0 \<Rightarrow> audio_context \<Rightarrow> audio_context" where
  "glide_voice now reading base v c =
     (case ratio_v v of
        None \<Rightarrow> c
      | Some ratio \<Rightarrow> fold (glide now reading (base * ratio)) (oscillators_v v) c)"

definition setDroneBase_p0 :: "real \<Rightarrow> (nat \<Rightarrow> real) \<Rightarrow> synth_p0 \<Rightarrow> synth_p0" where
  "setDroneBase_p0 semitones reading s =
     (let base = 65.41 * 2 powr (semitones / 12);
          s' = s\<lparr>droneBaseSemitones_p0 := semitones, droneBaseFrequency_p0 := base\<rparr>
      in case audioContext_p0 s' of
           Some c \<Rightarrow>
             if droneVoices_p0 s' \<noteq> [] then
               s'\<lparr>audioContext_p0 :=
                    Some (fold (glide_voice (currentTime c) reading base) (droneVoices_p0 s') c)\<rparr>
             else s'
         | None \<Rightarrow> s')"

definition stop_at :: "real \<Rightarrow> nat \<Rightarrow> audio_context \<Rightarrow> audio_context" where
  "stop_at t h c =
     (if h < length (oscillators c) then
        c\<lparr>oscillators := (oscillators c)[h := (oscillators c ! h)\<lparr>stopTime := Some t\<rparr>]\<rparr>
      else c)"

definition fade_voice :: "real \<Rightarrow> voice_p0 \<Rightarrow> audio_context \<Rightarrow> audio_context" where
  "fade_voice now v c =
     (let c1 = fold (\<lambda>g. ramp_gain (LinearRampToValueAtTime 0 (now + 2)) g
                          \<circ> ramp_gain (CancelScheduledValues now) g) (gains_v v) c;
          c2 = fold (stop_at (now + 2.1)) (oscillators_v v) c1
      in case lfo_v v of None \<Rightarrow> c2 | Some l \<Rightarrow> stop_at (now + 2.1) l c2)"

definition stopDrone_p0 :: "synth_p0 \<Rightarrow> js_error + synth_p0" where
  "stopDrone_p0 s =
     (case audioContext_p0 s of
        None \<Rightarrow> Inl TypeError
      | Some c \<Rightarrow>
          Inr (s\<lparr>audioContext_p0 := Some (fold (fade_voice (currentTime c)) (droneVoices_p0 s) c),
                 droneVoices_p0 := []\<rparr>))"

subsection \<open>part_000: expression\<close>

text \<open>\<open>updateExpression(x, y)\<close>; the filter, made by \<open>init\<close>, is missing before.\<close>

definition updateExpression :: "real \<Rightarrow> real \<Rightarrow> synth_p0 \<Rightarrow> js_error + synth_p0" where
  "updateExpression x y s =
     (let cutoff = 200 + x * 7800 in
      case (masterFilter_p0 s, reverbWet_p0 s, delayFeedbackGain_p0 s) of
        (Some f, Some w, Some d) \<Rightarrow>
          Inr (s\<lparr>expression_p0 := (expression_p0 s)\<lparr>filterCutoff := cutoff, reverbMix := y\<rparr>,
                 masterFilter_p0 := Some (f\<lparr>pvalue := cutoff\<rparr>),
                 reverbWet_p0 := Some (w\<lparr>pvalue := y * 0.7\<rparr>),
                 delayFeedbackGain_p0 := Some (d\<lparr>pvalue := 0.2 + y * 0.4\<rparr>)\<rparr>)
      | _ \<Rightarrow> Inl TypeError)"

definition setInstrumentVolume_p0 :: "string \<Rightarrow> real \<Rightarrow> synth_p0 \<Rightarrow> synth_p0" where
  "setInstrumentVolume_p0 instrument volume s =
     (if instrumentVolumes_p0 s instrument \<noteq> None
      then s\<lparr>instrumentVolumes_p0 := (instrumentVolumes_p0 s)(instrument \<mapsto> max 0 (min 1 volume))\<rparr>
      else s)"

subsection \<open>part_000: sequencer\<close>

text \<open>
  \<open>getNoteFrequency(noteIndex)\<close>: a negative remainder indexes outside the scale and the
  result is \<open>NaN\<close>.
\<close>

definition getNoteFrequency :: "int \<Rightarrow> real option" where
  "getNoteFrequency noteIdx =
     (let r = js_rem noteIdx (int (length meditation_p0)) in
      if 0 \<le> r then
        Some (meditation_p0 ! nat r
                * 2 powr real_of_int \<lfloor>real_of_int noteIdx / real (length meditation_p0)\<rfloor>)
      else None)"

text \<open>
  \<open>playSequencerStep\<close>: the six rows in the order of the source, each with its play
  method and that method's default velocity, which applies when the volume read from
  \<open>instrumentVolumes\<close> is \<open>undefined\<close>; \<open>rnds k\<close> are the draws of the k-th row's
  voice. A step outside a row reads \<open>undefined\<close>, whose \<open>active\<close> cannot be read.
\<close>

type_synonym player_p0 = "real option \<Rightarrow> real \<Rightarrow> (nat \<Rightarrow> real) \<Rightarrow> synth_p0 \<Rightarrow> js_error + synth_p0"

definition seq_players :: "(string \<times> real \<times> player_p0) list" where
  "seq_players =
     [(''bowls'', 0.8, strikeBowl), (''wind'', 0.7, playWind_p0), (''strings'', 0.7, playString_p0),
      (''horn'', 0.6, playHorn_p0), (''moorhen'', 0.5, playMoorhen_p0),
      (''oystercatcher'', 0.4, playOystercatcher_p0)]"

fun play_rows_p0 ::
  "(nat \<Rightarrow> nat \<Rightarrow> real) \<Rightarrow> nat \<Rightarrow> (string \<times> real \<times> player_p0) list \<Rightarrow> synth_p0
     \<Rightarrow> js_error + synth_p0" where
  "play_rows_p0 rnds k [] s = Inr s"
| "play_rows_p0 rnds k (ip # rest) s =
     (case seq_cell (sequencer_p0 s) (fst ip) (currentStep (sequencer_p0 s)) of
        None \<Rightarrow> Inl TypeError
      | Some c \<Rightarrow>
          if active c then
            (let velocity = (case instrumentVolumes_p0 s (fst ip) of
                               None \<Rightarrow> fst (snd ip) | Some vol \<Rightarrow> vol)
             in case (snd (snd ip)) (getNoteFrequency (noteIndex c)) velocity (rnds k) s of
                  Inl e \<Rightarrow> Inl e
                | Inr s' \<Rightarrow> play_rows_p0 rnds (Suc k) rest s')
          else play_rows_p0 rnds (Suc k) rest s)"

definition playSequencerStep :: "(nat \<Rightarrow> nat \<Rightarrow> real) \<Rightarrow> synth_p0 \<Rightarrow> js_error + synth_p0" where
  "playSequencerStep rnds s = play_rows_p0 rnds 0 seq_players s"

text \<open>The timer's callback: advance, then play. The notification of the page is not
  modelled.\<close>

definition sequencerTick :: "(nat \<Rightarrow> real) \<Rightarrow> (nat \<Rightarrow> nat \<Rightarrow> real) \<Rightarrow> synth_p0 \<Rightarrow> js_error + synth_p0" where
  "sequencerTick rnd rnds s =
     playSequencerStep rnds (s\<lparr>sequencer_p0 := advanceSequencerStep rnd (sequencer_p0 s)\<rparr>)"

definition startSequencer :: "nat \<Rightarrow> (nat \<Rightarrow> nat \<Rightarrow> real) \<Rightarrow> synth_p0 \<Rightarrow> js_error + synth_p0" where
  "startSequencer timer rnds s =
     (if isPlaying (sequencer_p0 s) then Inr s
      else playSequencerStep rnds
             (s\<lparr>sequencer_p0 := (sequencer_p0 s)
                  \<lparr>isPlaying := True, currentStep := 0, intervalId := Some timer\<rparr>\<rparr>))"

definition stopSequencer :: "synth_p0 \<Rightarrow> synth_p0" where
  "stopSequencer s =
     (if \<not> isPlaying (sequencer_p0 s) then s
      else s\<lparr>sequencer_p0 := (sequencer_p0 s)
               \<lparr>isPlaying := False, intervalId := None, currentStep := 0\<rparr>\<rparr>)"


section \<open>v2.0.0 ui.js: the sequencer grid\<close>

text \<open>
  \<open>sequencer.patterns[instrument]\<close> is an array of sixteen entries, each \<open>null\<close> (the
  cell is off) or a note index. An array is a map from indices to entries, so that a
  write at any index is the JavaScript one; the entry \<open>None\<close> is \<open>null\<close>.
\<close>

record ui_sequencer =
  playing :: bool
  currentStep_ui :: int
  tempo :: real
  randomness_ui :: real
  intervalId_ui :: "nat option"
  patterns :: "string \<rightharpoonup> (nat \<rightharpoonup> int option)"

text \<open>
  The part of a \<open>.seq-step\<close> element the handlers read and write: its \<open>active\<close> class
  and the value of its note \<open>select\<close> (\<open>None\<close> for the empty string).
\<close>

record step_el =
  classActive :: bool
  selectValue :: "int option"

record ui =
  sequencer_ui :: ui_sequencer
  stepEls :: "string \<times> nat \<Rightarrow> step_el"

definition set_pattern :: "string \<Rightarrow> nat \<Rightarrow> int option \<Rightarrow> ui \<Rightarrow> js_error + ui" where
  "set_pattern instrument stepIndex v u =
     (case patterns (sequencer_ui u) instrument of
        None \<Rightarrow> Inl TypeError
      | Some row \<Rightarrow>
          Inr (u\<lparr>sequencer_ui := (sequencer_ui u)
                 \<lparr>patterns := (patterns (sequencer_ui u))(instrument \<mapsto> row(stepIndex \<mapsto> v))\<rparr>\<rparr>))"

text \<open>
  The click handler of a step in \<open>setupSequencer\<close>; \<open>onSelect\<close> is \<open>e.target === select\<close>.
  The instrument and the step index are the element's \<open>data-instrument\<close> and \<open>data-step\<close>.
\<close>

definition seqStepClick :: "bool \<Rightarrow> string \<Rightarrow> nat \<Rightarrow> ui \<Rightarrow> js_error + ui" where
  "seqStepClick onSelect instrument stepIndex u =
     (if onSelect then Inr u
      else
        let el = stepEls u (instrument, stepIndex) in
        if classActive el then
          set_pattern instrument stepIndex None
            (u\<lparr>stepEls := (stepEls u)((instrument, stepIndex) := el\<lparr>classActive := False\<rparr>)\<rparr>)
        else
          let noteValue = (case selectValue el of Some n \<Rightarrow> n | None \<Rightarrow> 0) in
          case set_pattern instrument stepIndex (Some noteValue)
                 (u\<lparr>stepEls := (stepEls u)((instrument, stepIndex) := el\<lparr>classActive := True\<rparr>)\<rparr>) of
            Inl e \<Rightarrow> Inl e
          | Inr u' \<Rightarrow>
              Inr (u'\<lparr>stepEls := (stepEls u')((instrument, stepIndex) :=
                     (stepEls u' (instrument, stepIndex))\<lparr>selectValue := Some noteValue\<rparr>)\<rparr>))"

text \<open>The \<open>change\<close> handler of the note select; \<open>v\<close> is the new \<open>select.value\<close>.\<close>

definition seqSelectChange :: "int option \<Rightarrow> string \<Rightarrow> nat \<Rightarrow> ui \<Rightarrow> js_error + ui" where
  "seqSelectChange v instrument stepIndex u =
     (let el = (stepEls u (instrument, stepIndex))\<lparr>selectValue := v\<rparr> in
      case v of
        Some n \<Rightarrow>
          set_pattern instrument stepIndex (Some n)
            (u\<lparr>stepEls := (stepEls u)((instrument, stepIndex) := el\<lparr>classActive := True\<rparr>)\<rparr>)
      | None \<Rightarrow>
          set_pattern instrument stepIndex None
            (u\<lparr>stepEls := (stepEls u)((instrument, stepIndex) := el\<lparr>classActive := False\<rparr>)\<rparr>))"

text \<open>
  What the two handlers keep true of a step: it carries the \<open>active\<close> class exactly when
  its pattern entry is a note, and then the select shows that note.
\<close>

definition step_consistent :: "ui \<Rightarrow> string \<Rightarrow> nat \<Rightarrow> bool" where
  "step_consistent u instrument stepIndex =
     (case patterns (sequencer_ui u) instrument of
        None \<Rightarrow> False
      | Some row \<Rightarrow>
          let el = stepEls u (instrument, stepIndex) in
          if classActive el
          then selectValue el \<noteq> None \<and> row stepIndex = Some (selectValue el)
          else row stepIndex = Some None)"



section \<open>v2.0.0 ui.js: expression pad and MIDI input\<close>

text \<open>
  \<open>updateFromPosition\<close>: the pointer position relative to the pad, clamped to the unit
  interval, and the filter frequency and reverb amount sent to the engine.
\<close>

definition relX :: "real \<Rightarrow> real \<Rightarrow> real \<Rightarrow> real" where
  "relX x left width = max 0 (min 1 ((x - left) / width))"

definition filterFreq :: "real \<Rightarrow> real" where
  "filterFreq rx = 200 * 40 powr rx"

definition reverbAmount :: "real \<Rightarrow> real" where
  "reverbAmount ry = 1 - ry"

definition updateFromPosition :: "real \<Rightarrow> real \<Rightarrow> synth \<Rightarrow> js_error + synth" where
  "updateFromPosition rx ry s =
     (case setFilter (filterFreq rx) s of
        Inl e \<Rightarrow> Inl e
      | Inr s' \<Rightarrow> setReverb (reverbAmount ry) s')"






section \<open>Properties\<close>

subsection \<open>Remainders\<close>

lemma js_rem_nonneg: "0 \<le> a \<Longrightarrow> js_rem a 16 = a mod 16"
  by (cases "a = 0") (simp_all add: js_rem_def)

lemma js_rem_bounds: "- 16 < js_rem a 16 \<and> js_rem a 16 < 16"
proof (cases "0 \<le> a")
  case True
  then show ?thesis by (simp add: js_rem_nonneg)
next
  case False
  then have "js_rem a 16 = - ((- a) mod 16)" by (simp add: js_rem_def)
  moreover have "0 \<le> (- a) mod 16" "(- a) mod 16 < 16" by simp_all
  ultimately show ?thesis by linarith
qed

lemma js_rem_cong: "(js_rem a 16 - a) mod 16 = 0"
proof (cases "0 \<le> a")
  case True
  then show ?thesis by (simp add: js_rem_nonneg mod_diff_left_eq)
next
  case False
  then have "js_rem a 16 = - ((- a) mod 16)" by (simp add: js_rem_def)
  then have "js_rem a 16 - a = (- a) - ((- a) mod 16)" by simp
  then show ?thesis by (simp add: minus_mod_eq_mult_div)
qed

lemma js_wrap: "js_rem (js_rem a 16 + 16) 16 = a mod 16"
proof -
  have b: "0 \<le> js_rem a 16 + 16" using js_rem_bounds [of a] by linarith
  have "js_rem (js_rem a 16 + 16) 16 = (js_rem a 16 + 16) mod 16"
    using b by (rule js_rem_nonneg)
  also have "\<dots> = (js_rem a 16) mod 16" by simp
  also have "\<dots> = (a + (js_rem a 16 - a)) mod 16" by simp
  also have "\<dots> = a mod 16"
    using js_rem_cong [of a] by (metis add.right_neutral mod_add_right_eq)
  finally show ?thesis .
qed

subsection \<open>Toggling a cell\<close>





lemma toggle_cell_back:
  "c\<lparr>active := \<not> active c\<rparr>\<lparr>active := \<not> active (c\<lparr>active := \<not> active c\<rparr>)\<rparr> = (c::cell)"
  by simp



lemma floor16:
  assumes "0 \<le> u" "u < (1::real)"
  shows "0 \<le> \<lfloor>u * 16\<rfloor> \<and> \<lfloor>u * 16\<rfloor> \<le> 15
     \<and> (\<forall>k. \<lfloor>u * 16\<rfloor> = k \<longleftrightarrow> real_of_int k / 16 \<le> u \<and> u < (real_of_int k + 1) / 16)"
proof -
  have "0 \<le> u * 16" "u * 16 < 16" using assms by simp_all
  then have "0 \<le> \<lfloor>u * 16\<rfloor>" "\<lfloor>u * 16\<rfloor> < 16" by (simp_all add: floor_less_iff)
  moreover have "\<forall>k. \<lfloor>u * 16\<rfloor> = k \<longleftrightarrow> real_of_int k / 16 \<le> u \<and> u < (real_of_int k + 1) / 16"
    by (auto simp: floor_eq_iff field_simps)
  ultimately show ?thesis by simp
qed

lemma jump_bounds:
  assumes "0 \<le> u" "u < (1::real)" "0 \<le> R"
  shows "- R \<le> \<lfloor>u * real_of_int (R * 2 + 1)\<rfloor> - R \<and> \<lfloor>u * real_of_int (R * 2 + 1)\<rfloor> - R \<le> R"
proof -
  have p: "0 < real_of_int (R * 2 + 1)" using assms by simp
  have "0 \<le> u * real_of_int (R * 2 + 1)" using assms p by simp
  then have a: "0 \<le> \<lfloor>u * real_of_int (R * 2 + 1)\<rfloor>" by simp
  have "u * real_of_int (R * 2 + 1) < real_of_int (R * 2 + 1)"
    using assms p by (simp add: mult_less_cancel_right2)
  then have "\<lfloor>u * real_of_int (R * 2 + 1)\<rfloor> < R * 2 + 1" by (subst floor_less_iff)
  with a show ?thesis by linarith
qed

lemma advance_sequential:
  assumes "randomness q = 0" "0 \<le> currentStep q"
  shows "advanceSequencerStep rnd q = q\<lparr>currentStep := (currentStep q + 1) mod 16\<rparr>"
  using assms by (simp add: advanceSequencerStep_def js_rem_nonneg)

lemma advanceSteps_sequential:
  assumes "randomness q = 0" "0 \<le> currentStep q" "currentStep q < 16"
  shows "advanceSteps rnds q = q\<lparr>currentStep := (currentStep q + int (length rnds)) mod 16\<rparr>"
  using assms
proof (induction rnds arbitrary: q)
  case Nil
  then show ?case by simp
next
  case (Cons r rnds)
  let ?q = "q\<lparr>currentStep := (currentStep q + 1) mod 16\<rparr>"
  have 1: "advanceSequencerStep r q = ?q" using Cons.prems by (simp add: advance_sequential)
  have "advanceSteps rnds ?q = ?q\<lparr>currentStep := (currentStep ?q + int (length rnds)) mod 16\<rparr>"
    by (rule Cons.IH) (use Cons.prems in simp_all)
  moreover have "((currentStep q + 1) mod 16 + int (length rnds)) mod 16
      = (currentStep q + int (length (r # rnds))) mod 16"
    by simp presburger
  ultimately show ?case using 1 by simp
qed

subsection \<open>The sequencer grid of ui.js\<close>


lemma seqStepClick_consistent:
  assumes "step_consistent u k i" "seqStepClick b k i u = Inr u'"
  shows "step_consistent u' k i"
  using assms
  by (auto simp: seqStepClick_def set_pattern_def step_consistent_def Let_def
      split: option.splits if_splits sum.splits)

lemma seqSelectChange_consistent:
  assumes "seqSelectChange v k i u = Inr u'"
  shows "step_consistent u' k i"
  using assms
  by (auto simp: seqSelectChange_def set_pattern_def step_consistent_def Let_def
      split: option.splits if_splits sum.splits)


subsection \<open>Claims on the sequencer\<close>




text \<open>
  C7. The step pointer of part_000 (\<open>advanceSequencerStep\<close>, the fully-random jump
  policy). With randomness 0 a tick moves the pointer by one modulo 16, so after n ticks
  it stands at the start plus n modulo 16. With randomness 1 (or more) the pointer is
  \<open>floor (16 u)\<close> for the tick's own draw \<open>u\<close>, whatever the pointer was: a value of
  0..15, and it is \<open>k\<close> exactly when \<open>u\<close> lies in the k-th sixteenth of the unit interval.
  In between, the tick jumps exactly when its first draw is below the randomness, by an
  offset of absolute value at most \<open>ceil (15 r)\<close>, wrapped modulo 16, and otherwise moves
  by one.
\<close>

theorem C7_step_advance_policy:
  "(randomness q = 0 \<and> 0 \<le> currentStep q \<and> currentStep q < 16 \<longrightarrow>
      currentStep (advanceSequencerStep rnd q) = (currentStep q + 1) mod 16
    \<and> (\<forall>n \<le> length rnds.
          currentStep (advanceSteps (take n rnds) q) = (currentStep q + int n) mod 16))
   \<and> (1 \<le> randomness q \<and> 0 \<le> rnd 0 \<and> rnd 0 < 1 \<longrightarrow>
      currentStep (advanceSequencerStep rnd q) = \<lfloor>rnd 0 * 16\<rfloor>
    \<and> 0 \<le> currentStep (advanceSequencerStep rnd q)
    \<and> currentStep (advanceSequencerStep rnd q) \<le> 15
    \<and> (\<forall>k. currentStep (advanceSequencerStep rnd q) = k \<longleftrightarrow>
             real_of_int k / 16 \<le> rnd 0 \<and> rnd 0 < (real_of_int k + 1) / 16))
   \<and> (0 < randomness q \<and> randomness q < 1 \<and> 0 \<le> rnd 1 \<and> rnd 1 < 1 \<longrightarrow>
      (rnd 0 < randomness q \<longrightarrow>
         (\<exists>jump. \<bar>jump\<bar> \<le> \<lceil>randomness q * 15\<rceil>
            \<and> currentStep (advanceSequencerStep rnd q) = (currentStep q + jump) mod 16))
    \<and> (\<not> rnd 0 < randomness q \<and> 0 \<le> currentStep q \<longrightarrow>
         currentStep (advanceSequencerStep rnd q) = (currentStep q + 1) mod 16))"
proof (intro conjI impI)
  assume a: "randomness q = 0 \<and> 0 \<le> currentStep q \<and> currentStep q < 16"
  then show "currentStep (advanceSequencerStep rnd q) = (currentStep q + 1) mod 16"
    by (simp add: advance_sequential)
  show "\<forall>n \<le> length rnds.
          currentStep (advanceSteps (take n rnds) q) = (currentStep q + int n) mod 16"
  proof (intro allI impI)
    fix n assume "n \<le> length rnds"
    then have "length (take n rnds) = n" by simp
    then show "currentStep (advanceSteps (take n rnds) q) = (currentStep q + int n) mod 16"
      using a advanceSteps_sequential [of q "take n rnds"] by simp
  qed
next
  assume a: "1 \<le> randomness q \<and> 0 \<le> rnd 0 \<and> rnd 0 < 1"
  then have e: "currentStep (advanceSequencerStep rnd q) = \<lfloor>rnd 0 * 16\<rfloor>"
    by (simp add: advanceSequencerStep_def)
  show "currentStep (advanceSequencerStep rnd q) = \<lfloor>rnd 0 * 16\<rfloor>" by (rule e)
  show "0 \<le> currentStep (advanceSequencerStep rnd q)"
    using a floor16 [of "rnd 0"] e by simp
  show "currentStep (advanceSequencerStep rnd q) \<le> 15"
    using a floor16 [of "rnd 0"] e by simp
  show "\<forall>k. currentStep (advanceSequencerStep rnd q) = k \<longleftrightarrow>
             real_of_int k / 16 \<le> rnd 0 \<and> rnd 0 < (real_of_int k + 1) / 16"
    using a floor16 [of "rnd 0"] e by simp
next
  assume a: "0 < randomness q \<and> randomness q < 1 \<and> 0 \<le> rnd 1 \<and> rnd 1 < 1"
    and b: "rnd 0 < randomness q"
  define R where "R = \<lceil>randomness q * 15\<rceil>"
  define jump where "jump = \<lfloor>rnd 1 * real_of_int (R * 2 + 1)\<rfloor> - R"
  have R0: "0 \<le> R" using a by (simp add: R_def)
  have "- R \<le> jump \<and> jump \<le> R"
    unfolding jump_def using a R0 by (intro jump_bounds) simp_all
  then have 1: "\<bar>jump\<bar> \<le> \<lceil>randomness q * 15\<rceil>" by (simp add: R_def abs_le_iff)
  have "currentStep (advanceSequencerStep rnd q)
      = js_rem (js_rem (currentStep q + jump) 16 + 16) 16"
    using a b by (simp add: advanceSequencerStep_def Let_def jump_def R_def)
  then have 2: "currentStep (advanceSequencerStep rnd q) = (currentStep q + jump) mod 16"
    by (simp add: js_wrap)
  from 1 2 show "\<exists>jump. \<bar>jump\<bar> \<le> \<lceil>randomness q * 15\<rceil>
            \<and> currentStep (advanceSequencerStep rnd q) = (currentStep q + jump) mod 16"
    by blast
next
  assume a: "0 < randomness q \<and> randomness q < 1 \<and> 0 \<le> rnd 1 \<and> rnd 1 < 1"
    and b: "\<not> rnd 0 < randomness q \<and> 0 \<le> currentStep q"
  then show "currentStep (advanceSequencerStep rnd q) = (currentStep q + 1) mod 16"
    by (simp add: advanceSequencerStep_def js_rem_nonneg)
qed

theorem C7_step_advance_policy_witness:
  "currentStep (advanceSequencerStep (\<lambda>_. 0) initial_sequencer) = 1
   \<and> currentStep (advanceSteps (replicate 17 (\<lambda>_. 0)) initial_sequencer) = 1
   \<and> currentStep (advanceSequencerStep (\<lambda>_. 1 / 2) (initial_sequencer\<lparr>randomness := 1\<rparr>)) = 8
   \<and> (\<exists>jump. \<bar>jump\<bar> \<le> 8
        \<and> currentStep (advanceSequencerStep (\<lambda>i. if i = 0 then 1 / 4 else 3 / 4)
             (initial_sequencer\<lparr>randomness := 1 / 2\<rparr>)) = jump mod 16)
   \<and> currentStep (advanceSequencerStep (\<lambda>_. 3 / 4) (initial_sequencer\<lparr>randomness := 1 / 2\<rparr>)) = 1"
proof -
  have c: "\<lceil>(15::real) / 2\<rceil> = 8" by (simp add: ceiling_eq_iff)
  have 1: "currentStep (advanceSequencerStep (\<lambda>_. 0) initial_sequencer) = 1
      \<and> currentStep (advanceSteps (replicate 17 (\<lambda>_. 0)) initial_sequencer) = 1"
    using C7_step_advance_policy [of initial_sequencer "\<lambda>_. 0" "replicate 17 (\<lambda>_. 0)"]
    by (simp add: initial_sequencer_def)
  have 2: "currentStep (advanceSequencerStep (\<lambda>_. 1 / 2) (initial_sequencer\<lparr>randomness := 1\<rparr>)) = 8"
    using C7_step_advance_policy [of "initial_sequencer\<lparr>randomness := 1\<rparr>" "\<lambda>_. 1 / 2" "[]"]
    by (simp add: initial_sequencer_def)
  have 3: "\<exists>jump. \<bar>jump\<bar> \<le> 8
        \<and> currentStep (advanceSequencerStep (\<lambda>i. if i = 0 then 1 / 4 else 3 / 4)
             (initial_sequencer\<lparr>randomness := 1 / 2\<rparr>)) = jump mod 16"
    using C7_step_advance_policy [of "initial_sequencer\<lparr>randomness := 1 / 2\<rparr>"
        "\<lambda>i. if i = 0 then 1 / 4 else 3 / 4" "[]"] c
    by (simp add: initial_sequencer_def)
  have 4: "currentStep (advanceSequencerStep (\<lambda>_. 3 / 4) (initial_sequencer\<lparr>randomness := 1 / 2\<rparr>)) = 1"
    using C7_step_advance_policy [of "initial_sequencer\<lparr>randomness := 1 / 2\<rparr>" "\<lambda>_. 3 / 4" "[]"]
    by (simp add: initial_sequencer_def)
  from 1 2 3 4 show ?thesis by blast
qed

subsection \<open>MIDI note-on\<close>










subsection \<open>Drone base frequency and filter cutoff\<close>

lemma powr_base2_strict: "a < b \<Longrightarrow> (65.41::real) * 2 powr (a / 12) < 65.41 * 2 powr (b / 12)"
  by (simp add: powr_less_mono)

lemma powr_octave: "(65.41::real) * 2 powr ((a + 12) / 12) = 2 * (65.41 * 2 powr (a / 12))"
proof -
  have "(a + 12) / 12 = a / 12 + 1" by simp
  then have "(2::real) powr ((a + 12) / 12) = 2 powr (a / 12) * 2 powr 1"
    by (simp only: powr_add)
  then show ?thesis by simp
qed

lemma setDroneBase_p0_freq:
  "droneBaseFrequency_p0 (setDroneBase_p0 st reading s) = 65.41 * 2 powr (st / 12)"
  by (simp add: setDroneBase_p0_def Let_def split: option.splits)

lemma startDrone_fresh:
  assumes "\<not> droneActive s" "audioContext s = Some c" "droneGain s = Some dg"
  shows "startDrone baseNote volume rnd s =
     Inr (s\<lparr>droneActive := True, droneBaseNote := baseNote, droneTargetVolume := volume,
            audioContext := Some (add_nodes
              (map (\<lambda>i. \<lparr>otype = (if i = 0 then ''sawtooth'' else ''sine''),
                        frequency = param (drone_frequencies (65.41 * 2 powr (baseNote / 12)) ! i
                                             + (rnd i - 0.5) * 0.5) [],
                        detune = param 0 [], startTime = Some (currentTime c), stopTime = None\<rparr>)
                 [0..<4])
              (map (\<lambda>i. param (drone_gains ! i) []) [0..<4]) c),
            droneOscillators := droneOscillators s
               @ map (\<lambda>i. (length (oscillators c) + i, length (gainNodes c) + i)) [0..<4],
            droneGain := Some (schedule (SetTargetAtTime volume (currentTime c) 0.5) dg)\<rparr>)"
proof -
  have len: "\<And>b. length (drone_frequencies b) = 4" by (simp add: drone_frequencies_def)
  show ?thesis using assms by (simp add: startDrone_def Let_def len)
qed

lemma filterFreq_mono: "x < y \<Longrightarrow> filterFreq x < filterFreq y"
  by (simp add: filterFreq_def powr_less_mono)

lemma filterFreq_cont: "continuous_on A filterFreq"
  unfolding filterFreq_def by (intro continuous_intros) simp

lemma sqrt40: "(40::real) powr (1 / 2) < 7"
proof -
  have "(40::real) powr (1 / 2) = sqrt 40" by (simp add: powr_half_sqrt)
  also have "\<dots> < 7" by (rule real_less_lsqrt) simp_all
  finally show ?thesis .
qed

lemma updateExpression_init:
  "updateExpression x y (init_p0 new_synth_p0) = Inr s' \<Longrightarrow> filterCutoff (expression_p0 s') = 200 + x * 7800"
  by (auto simp: updateExpression_def Let_def split: option.splits)

lemma updateExpression_cutoff:
  "updateExpression x y s = Inr s' \<Longrightarrow>
     filterCutoff (expression_p0 s') = 200 + x * 7800
     \<and> map_option pvalue (masterFilter_p0 s') = Some (200 + x * 7800)"
  by (auto simp: updateExpression_def Let_def split: option.splits)

lemma updateExpression_returns:
  "isInitialized_p0 (init_p0 new_synth_p0) \<and>
   (\<exists>s'. updateExpression x y (init_p0 new_synth_p0) = Inr s')"
  by (simp add: updateExpression_def Let_def init_p0_def new_synth_p0_def)

text \<open>
  C6. The drone's base frequency \<open>65.41 * 2^(semitones / 12)\<close>: in part_000 it is what
  \<open>setDroneBase\<close> stores, in v2.0.0 what \<open>startDrone\<close> gives the root oscillator (before
  the random detune of at most a quarter hertz). It is strictly increasing in the
  semitones, and twelve semitones more double it. Numbers are reals here, so the
  doubling is exact.
\<close>

theorem C6_drone_base_frequency:
  "droneBaseFrequency_p0 (setDroneBase_p0 st reading s) = 65.41 * 2 powr (st / 12)
   \<and> (st < st' \<longrightarrow>
        droneBaseFrequency_p0 (setDroneBase_p0 st reading s)
          < droneBaseFrequency_p0 (setDroneBase_p0 st' reading s))
   \<and> droneBaseFrequency_p0 (setDroneBase_p0 (st + 12) reading s)
        = 2 * droneBaseFrequency_p0 (setDroneBase_p0 st reading s)
   \<and> (\<not> droneActive v \<and> audioContext v = Some c \<and> droneGain v = Some dg \<longrightarrow>
        (\<exists>v' c'. startDrone st volume rnd v = Inr v' \<and> audioContext v' = Some c'
           \<and> pvalue (frequency (oscillators c' ! length (oscillators c)))
                = 65.41 * 2 powr (st / 12) + (rnd 0 - 0.5) * 0.5))"
proof (intro conjI impI)
  show "droneBaseFrequency_p0 (setDroneBase_p0 st reading s) = 65.41 * 2 powr (st / 12)"
    by (rule setDroneBase_p0_freq)
  show "droneBaseFrequency_p0 (setDroneBase_p0 st reading s)
          < droneBaseFrequency_p0 (setDroneBase_p0 st' reading s)" if "st < st'"
    using that by (simp only: setDroneBase_p0_freq powr_base2_strict)
  show "droneBaseFrequency_p0 (setDroneBase_p0 (st + 12) reading s)
        = 2 * droneBaseFrequency_p0 (setDroneBase_p0 st reading s)"
    by (simp only: setDroneBase_p0_freq powr_octave)
next
  assume a: "\<not> droneActive v \<and> audioContext v = Some c \<and> droneGain v = Some dg"
  then have "startDrone st volume rnd v = Inr (v\<lparr>droneActive := True, droneBaseNote := st,
            droneTargetVolume := volume,
            audioContext := Some (add_nodes
              (map (\<lambda>i. \<lparr>otype = (if i = 0 then ''sawtooth'' else ''sine''),
                        frequency = param (drone_frequencies (65.41 * 2 powr (st / 12)) ! i
                                             + (rnd i - 0.5) * 0.5) [],
                        detune = param 0 [], startTime = Some (currentTime c), stopTime = None\<rparr>)
                 [0..<4])
              (map (\<lambda>i. param (drone_gains ! i) []) [0..<4]) c),
            droneOscillators := droneOscillators v
               @ map (\<lambda>i. (length (oscillators c) + i, length (gainNodes c) + i)) [0..<4],
            droneGain := Some (schedule (SetTargetAtTime volume (currentTime c) 0.5) dg)\<rparr>)"
    by (intro startDrone_fresh) simp_all
  then show "\<exists>v' c'. startDrone st volume rnd v = Inr v' \<and> audioContext v' = Some c'
           \<and> pvalue (frequency (oscillators c' ! length (oscillators c)))
                = 65.41 * 2 powr (st / 12) + (rnd 0 - 0.5) * 0.5"
    by (simp add: add_nodes_def nth_append drone_frequencies_def param_def)
qed

lemma init_drone_ready:
  "\<not> droneActive (init new_synth) \<and> audioContext (init new_synth) = Some new_context
   \<and> droneGain (init new_synth) = Some (param 0 [])"
  by (simp add: init_def new_synth_def)

theorem C6_drone_base_frequency_witness:
  "(0::real) < 12
   \<and> droneBaseFrequency_p0 (setDroneBase_p0 0 (\<lambda>_. 0) new_synth_p0) = 65.41
   \<and> droneBaseFrequency_p0 (setDroneBase_p0 0 (\<lambda>_. 0) new_synth_p0)
        < droneBaseFrequency_p0 (setDroneBase_p0 12 (\<lambda>_. 0) new_synth_p0)
   \<and> droneBaseFrequency_p0 (setDroneBase_p0 12 (\<lambda>_. 0) new_synth_p0) = 130.82
   \<and> (\<exists>v' c'. startDrone 0 0.3 (\<lambda>_. 1 / 2) (init new_synth) = Inr v' \<and> audioContext v' = Some c'
         \<and> pvalue (frequency (oscillators c' ! 0)) = 65.41)"
proof -
  have l: "length (oscillators new_context) = 0" by (simp add: new_context_def)
  show ?thesis
    using C6_drone_base_frequency [of 0 "\<lambda>_. 0" new_synth_p0 12 "init new_synth" new_context
        "param 0 []" "0.3" "\<lambda>_. 1 / 2"] init_drone_ready l
    by simp
qed

text \<open>
  C5 (as amended). The pad's x coordinate and the filter cutoff. In ui.js of v2.0.0 the
  cutoff sent to the engine is \<open>200 * 40^x\<close>; in part_000 \<open>updateExpression\<close> stores and
  applies the straight line \<open>200 + 7800 x\<close>. Both give 200 at 0 and 8000 at 1, are
  strictly increasing, and are continuous on the unit interval.
\<close>

theorem C5_filter_cutoff_mapping:
  "filterFreq x = 200 * 40 powr x
   \<and> filterFreq 0 = 200 \<and> filterFreq 1 = 8000
   \<and> (x < x' \<longrightarrow> filterFreq x < filterFreq x')
   \<and> continuous_on {0..1} filterFreq
   \<and> (audioContext v = Some c \<and> filterNode v = Some f \<longrightarrow>
        setFilter (filterFreq x) v
          = Inr (v\<lparr>filterNode := Some (schedule (SetTargetAtTime (200 * 40 powr x) (currentTime c) 0.05) f)\<rparr>))
   \<and> (updateExpression x y s = Inr s' \<longrightarrow>
        filterCutoff (expression_p0 s') = 200 + x * 7800
        \<and> map_option pvalue (masterFilter_p0 s') = Some (200 + x * 7800))
   \<and> (200 + (0::real) * 7800 = 200) \<and> (200 + (1::real) * 7800 = 8000)
   \<and> (x < x' \<longrightarrow> 200 + x * 7800 < 200 + x' * 7800)
   \<and> continuous_on {0..1} (\<lambda>x::real. 200 + x * 7800)"
proof (intro conjI impI)
  show "filterFreq x = 200 * 40 powr x" by (simp add: filterFreq_def)
  show "filterFreq 0 = 200" by (simp add: filterFreq_def)
  show "filterFreq 1 = 8000" by (simp add: filterFreq_def)
  show "filterFreq x < filterFreq x'" if "x < x'" using that by (rule filterFreq_mono)
  show "continuous_on {0..1} filterFreq" by (rule filterFreq_cont)
  show "setFilter (filterFreq x) v
          = Inr (v\<lparr>filterNode := Some (schedule (SetTargetAtTime (200 * 40 powr x) (currentTime c) 0.05) f)\<rparr>)"
    if "audioContext v = Some c \<and> filterNode v = Some f"
    using that by (simp add: setFilter_def filterFreq_def)
  show "filterCutoff (expression_p0 s') = 200 + x * 7800"
    if "updateExpression x y s = Inr s'" using updateExpression_cutoff [OF that] by simp
  show "map_option pvalue (masterFilter_p0 s') = Some (200 + x * 7800)"
    if "updateExpression x y s = Inr s'" using updateExpression_cutoff [OF that] by simp
  show "200 + x * 7800 < 200 + x' * 7800" if "x < x'" using that by simp
  show "continuous_on {0..1} (\<lambda>x::real. 200 + x * 7800)" by (intro continuous_intros)
qed simp_all

theorem C5_filter_cutoff_mapping_witness:
  "(1 / 4 :: real) < 1 / 2
   \<and> filterFreq (1 / 4) < filterFreq (1 / 2)
   \<and> audioContext (init new_synth) = Some new_context
   \<and> filterNode (init new_synth) = Some (param 2000 [])
   \<and> setFilter (filterFreq (1 / 4)) (init new_synth)
       = Inr ((init new_synth)\<lparr>filterNode :=
           Some (schedule (SetTargetAtTime (200 * 40 powr (1 / 4)) 0 0.05) (param 2000 []))\<rparr>)
   \<and> (\<exists>s'. updateExpression (1 / 4) 0 (init_p0 new_synth_p0) = Inr s'
         \<and> filterCutoff (expression_p0 s') = 2150)"
proof -
  have i: "audioContext (init new_synth) = Some new_context
     \<and> filterNode (init new_synth) = Some (param 2000 [])"
    by (simp add: init_def new_synth_def)
  obtain s' where s': "updateExpression (1 / 4) 0 (init_p0 new_synth_p0) = Inr s'"
    using updateExpression_returns by blast
  have t: "currentTime new_context = 0" by (simp add: new_context_def)
  show ?thesis
    using C5_filter_cutoff_mapping [of "1 / 4" "1 / 2" "init new_synth" new_context "param 2000 []"
        0 "init_p0 new_synth_p0" s'] i s' t
    by auto
qed

theorem C5_exponential_curve_counterexample:
  "map_sum id (filterCutoff \<circ> expression_p0) (updateExpression (1 / 2) 0 (init_p0 new_synth_p0))
     \<noteq> Inr (200 * 40 powr (1 / 2))"
proof -
  have "map_sum id (filterCutoff \<circ> expression_p0) (updateExpression (1 / 2) 0 (init_p0 new_synth_p0))
      = Inr 4100"
    by (simp add: updateExpression_def Let_def init_p0_def new_synth_p0_def)
  moreover have "(4100::real) \<noteq> 200 * 40 powr (1 / 2)" using sqrt40 by linarith
  ultimately show ?thesis by simp
qed

subsection \<open>Triggers on an engine that is not initialised\<close>

lemma play_voice_p0_uninit: "\<not> isInitialized_p0 s \<Longrightarrow> play_voice_p0 create f s = Inr s"
  by (simp add: play_voice_p0_def)

lemma players_uninit:
  assumes "\<not> isInitialized_p0 s" "ip \<in> set seq_players"
  shows "(snd (snd ip)) f v r s = Inr s"
  using assms
  by (auto simp: seq_players_def strikeBowl_def playWind_p0_def playString_p0_def playHorn_p0_def
      playMoorhen_p0_def playOystercatcher_p0_def play_voice_p0_uninit)

lemma seq_cell_rows16:
  assumes "rows16 q" "0 \<le> i" "i < 16" "ip \<in> set seq_players"
  shows "seq_cell q (fst ip) i \<noteq> None"
  using assms
  by (auto simp: seq_players_def seq_cell_def seq_row_def row_key_of_def rows16_def)

lemma play_rows_p0_uninit:
  assumes "\<not> isInitialized_p0 s" "rows16 (sequencer_p0 s)"
    "0 \<le> currentStep (sequencer_p0 s)" "currentStep (sequencer_p0 s) < 16"
    "set ips \<subseteq> set seq_players"
  shows "play_rows_p0 rnds k ips s = Inr s"
  using assms(5)
proof (induction ips arbitrary: k)
  case Nil
  then show ?case by simp
next
  case (Cons ip ips)
  then have m: "ip \<in> set seq_players" and r: "set ips \<subseteq> set seq_players" by simp_all
  obtain c where c: "seq_cell (sequencer_p0 s) (fst ip) (currentStep (sequencer_p0 s)) = Some c"
    using seq_cell_rows16 [OF assms(2) assms(3) assms(4) m] by blast
  show ?case
    using c players_uninit [OF assms(1) m] Cons.IH [OF r]
    by (simp add: Let_def)
qed

lemma advance_range:
  assumes "0 \<le> currentStep q" "0 \<le> rnd 0" "rnd 0 < 1"
  shows "0 \<le> currentStep (advanceSequencerStep rnd q) \<and> currentStep (advanceSequencerStep rnd q) < 16"
proof -
  have a: "0 \<le> js_rem (currentStep q + 1) 16 \<and> js_rem (currentStep q + 1) 16 < 16"
    using assms(1) by (simp add: js_rem_nonneg)
  have b: "0 \<le> \<lfloor>rnd 0 * 16\<rfloor> \<and> \<lfloor>rnd 0 * 16\<rfloor> < 16"
    using floor16 [OF assms(2) assms(3)] by simp
  have c: "\<And>x. 0 \<le> js_rem (js_rem x 16 + 16) 16 \<and> js_rem (js_rem x 16 + 16) 16 < 16"
    by (simp add: js_wrap)
  show ?thesis
    using a b c by (simp add: advanceSequencerStep_def Let_def)
qed

lemma advance_rows16: "rows16 (advanceSequencerStep rnd q) = rows16 q"
  by (simp add: advanceSequencerStep_def Let_def rows16_def)

lemma sequencerTick_uninit:
  assumes "\<not> isInitialized_p0 s" "rows16 (sequencer_p0 s)" "0 \<le> currentStep (sequencer_p0 s)"
    "0 \<le> rnd 0" "rnd 0 < 1"
  shows "sequencerTick rnd rnds s = Inr (s\<lparr>sequencer_p0 := advanceSequencerStep rnd (sequencer_p0 s)\<rparr>)"
proof -
  let ?s = "s\<lparr>sequencer_p0 := advanceSequencerStep rnd (sequencer_p0 s)\<rparr>"
  have "play_rows_p0 rnds 0 seq_players ?s = Inr ?s"
    using assms advance_range [of "sequencer_p0 s" rnd]
    by (intro play_rows_p0_uninit) (simp_all add: advance_rows16)
  then show ?thesis by (simp add: sequencerTick_def playSequencerStep_def)
qed

lemma playNote_p2_uninit: "\<not> isInitialized_p2 t \<Longrightarrow> playNote_p2 inst n t = Inr t"
  by (simp add: playNote_p2_def)

lemma play_rows_p2_uninit:
  "\<not> isInitialized_p2 t \<Longrightarrow> play_rows_p2 rnd k insts t = Inr t"
  by (induction insts arbitrary: k) (simp_all add: Let_def playNote_p2_uninit split: option.splits)

lemma playSequencerStep_p2_uninit:
  "\<not> isInitialized_p2 t \<Longrightarrow>
   playSequencerStep_p2 rnd t =
     Inr (t\<lparr>sequencer_p2 := (sequencer_p2 t)\<lparr>currentStep := js_rem (currentStep (sequencer_p2 t) + 1) 16\<rparr>\<rparr>)"
  by (simp add: playSequencerStep_p2_def play_rows_p2_uninit)

text \<open>
  C8 (as amended). In the engines of part_000 and part_002 a trigger on an engine that
  is not initialised returns at once: no error, the state as it was. That holds for
  \<open>playNote\<close> and for each play method of part_000, and for \<open>playNote\<close> of part_002. A
  sequencer tick in that state plays nothing and raises no error; it only moves the step
  pointer. The engine of v2.0.0 has no such guard.
\<close>

theorem C8_uninitialised_trigger_is_silent:
  "(\<not> isInitialized_p0 s \<longrightarrow>
      playNote key rnd s = Inr s \<and> strikeBowl f vel rnd s = Inr s
    \<and> playWind_p0 f vel rnd s = Inr s \<and> playString_p0 f vel rnd s = Inr s
    \<and> playHorn_p0 f vel rnd s = Inr s \<and> playMoorhen_p0 f vel rnd s = Inr s
    \<and> playOystercatcher_p0 f vel rnd s = Inr s)
   \<and> (\<not> isInitialized_p0 s \<and> rows16 (sequencer_p0 s) \<and> 0 \<le> currentStep (sequencer_p0 s)
        \<and> 0 \<le> rnd 0 \<and> rnd 0 < 1 \<longrightarrow>
      sequencerTick rnd rnds s
        = Inr (s\<lparr>sequencer_p0 := advanceSequencerStep rnd (sequencer_p0 s)\<rparr>))
   \<and> (\<not> isInitialized_p2 t \<longrightarrow>
      playNote_p2 inst n t = Inr t
    \<and> playSequencerStep_p2 rnd t =
        Inr (t\<lparr>sequencer_p2 := (sequencer_p2 t)
               \<lparr>currentStep := js_rem (currentStep (sequencer_p2 t) + 1) 16\<rparr>\<rparr>))"
proof (intro conjI impI)
  assume a: "\<not> isInitialized_p0 s"
  show "playNote key rnd s = Inr s" using a by (simp add: playNote_def)
  show "strikeBowl f vel rnd s = Inr s" using a by (simp add: strikeBowl_def play_voice_p0_uninit)
  show "playWind_p0 f vel rnd s = Inr s" using a by (simp add: playWind_p0_def play_voice_p0_uninit)
  show "playString_p0 f vel rnd s = Inr s" using a by (simp add: playString_p0_def play_voice_p0_uninit)
  show "playHorn_p0 f vel rnd s = Inr s" using a by (simp add: playHorn_p0_def play_voice_p0_uninit)
  show "playMoorhen_p0 f vel rnd s = Inr s" using a by (simp add: playMoorhen_p0_def play_voice_p0_uninit)
  show "playOystercatcher_p0 f vel rnd s = Inr s"
    using a by (simp add: playOystercatcher_p0_def play_voice_p0_uninit)
next
  assume "\<not> isInitialized_p0 s \<and> rows16 (sequencer_p0 s) \<and> 0 \<le> currentStep (sequencer_p0 s)
        \<and> 0 \<le> rnd 0 \<and> rnd 0 < 1"
  then show "sequencerTick rnd rnds s
        = Inr (s\<lparr>sequencer_p0 := advanceSequencerStep rnd (sequencer_p0 s)\<rparr>)"
    by (intro sequencerTick_uninit) simp_all
next
  assume a: "\<not> isInitialized_p2 t"
  show "playNote_p2 inst n t = Inr t" using a by (rule playNote_p2_uninit)
  show "playSequencerStep_p2 rnd t =
        Inr (t\<lparr>sequencer_p2 := (sequencer_p2 t)
               \<lparr>currentStep := js_rem (currentStep (sequencer_p2 t) + 1) 16\<rparr>\<rparr>)"
    using a by (rule playSequencerStep_p2_uninit)
qed

lemma new_p0_facts:
  "\<not> isInitialized_p0 new_synth_p0 \<and> rows16 (sequencer_p0 new_synth_p0)
   \<and> currentStep (sequencer_p0 new_synth_p0) = 0 \<and> randomness (sequencer_p0 new_synth_p0) = 0"
  by (simp add: new_synth_p0_def initial_sequencer_def rows16_def initial_row_def)

theorem C8_uninitialised_trigger_is_silent_witness:
  "\<not> isInitialized_p0 new_synth_p0 \<and> rows16 (sequencer_p0 new_synth_p0)
   \<and> playNote ''a'' (\<lambda>_. 1 / 2) new_synth_p0 = Inr new_synth_p0
   \<and> strikeBowl (Some 130.81) 0.7 (\<lambda>_. 1 / 2) new_synth_p0 = Inr new_synth_p0
   \<and> sequencerTick (\<lambda>_. 1 / 2) (\<lambda>_ _. 1 / 2) new_synth_p0
       = Inr (new_synth_p0\<lparr>sequencer_p0 := (sequencer_p0 new_synth_p0)\<lparr>currentStep := 1\<rparr>\<rparr>)
   \<and> \<not> isInitialized_p2 new_synth_p2
   \<and> playNote_p2 ''bowls'' 0 new_synth_p2 = Inr new_synth_p2
   \<and> playSequencerStep_p2 (\<lambda>_. 1 / 2) new_synth_p2
       = Inr (new_synth_p2\<lparr>sequencer_p2 := (sequencer_p2 new_synth_p2)\<lparr>currentStep := 1\<rparr>\<rparr>)"
proof -
  have p2: "\<not> isInitialized_p2 new_synth_p2 \<and> currentStep (sequencer_p2 new_synth_p2) = 0"
    by (simp add: new_synth_p2_def initial_sequencer_def)
  have adv: "advanceSequencerStep (\<lambda>_. 1 / 2) (sequencer_p0 new_synth_p0)
      = (sequencer_p0 new_synth_p0)\<lparr>currentStep := 1\<rparr>"
    using new_p0_facts by (simp add: advanceSequencerStep_def js_rem_def)
  have j: "js_rem 1 16 = 1" by (simp add: js_rem_def)
  show ?thesis
    using C8_uninitialised_trigger_is_silent [of new_synth_p0 "''a''" "\<lambda>_. 1 / 2" "Some 130.81" "0.7"
        "\<lambda>_ _. 1 / 2" new_synth_p2 "''bowls''" 0] new_p0_facts p2 adv j
    by simp
qed

theorem C8_unguarded_engine_counterexample:
  "playBowl 0 new_synth = Inl TypeError \<and> playInstrument ''bowls'' 0 new_synth = Inl TypeError"
  by (simp add: playInstrument_def playBowl_def play_nodes_def new_synth_def)

subsection \<open>Starting the drone twice\<close>

lemma make_voice_context:
  "snd (make_voice os gs others c) = add_nodes os (gs @ others) c"
  by (simp add: make_voice_def)

lemma run_timeout_p0_ok:
  assumes "audioContext_p0 s = Some c"
  shows "\<exists>s' c'. run_timeout_p0 rnd cb s = Inr s' \<and> audioContext_p0 s' = Some c'
     \<and> length (droneVoices_p0 s') = Suc (length (droneVoices_p0 s))"
  using assms by (simp add: run_timeout_p0_def Let_def)

lemma run_callbacks_p0_count:
  assumes "audioContext_p0 s = Some c"
  shows "\<exists>s'. run_callbacks_p0 rnds k cbs s = Inr s'
     \<and> length (droneVoices_p0 s') = length (droneVoices_p0 s) + length cbs"
  using assms
proof (induction cbs arbitrary: s k c)
  case Nil
  then show ?case by simp
next
  case (Cons cb cbs)
  from run_timeout_p0_ok [OF Cons.prems, of "rnds k" cb]
  obtain s1 c1 where 1: "run_timeout_p0 (rnds k) cb s = Inr s1" "audioContext_p0 s1 = Some c1"
    "length (droneVoices_p0 s1) = Suc (length (droneVoices_p0 s))" by blast
  from Cons.IH [OF 1(2), of "Suc k"]
  obtain s' where "run_callbacks_p0 rnds (Suc k) cbs s1 = Inr s'"
    "length (droneVoices_p0 s') = length (droneVoices_p0 s1) + length cbs" by blast
  with 1 show ?case by simp
qed

lemma run_timeouts_p0_count:
  assumes "audioContext_p0 s = Some c"
  shows "\<exists>s'. run_timeouts_p0 rnds s = Inr s'
     \<and> length (droneVoices_p0 s') = length (droneVoices_p0 s) + length (timeouts_p0 s)"
proof -
  have "audioContext_p0 (s\<lparr>timeouts_p0 := []\<rparr>) = Some c" using assms by simp
  from run_callbacks_p0_count [OF this, of rnds 0 "sort_key fst (timeouts_p0 s)"]
  show ?thesis by (simp add: run_timeouts_p0_def)
qed

lemma startDrone_p0_pending:
  assumes "isInitialized_p0 s" "droneVoices_p0 s = []"
  shows "droneVoices_p0 (startDrone_p0 s) = [] \<and> isInitialized_p0 (startDrone_p0 s)
     \<and> audioContext_p0 (startDrone_p0 s) = audioContext_p0 s
     \<and> length (timeouts_p0 (startDrone_p0 s)) = length (timeouts_p0 s) + 4"
  using assms by (simp add: startDrone_p0_def droneRatios_def)

lemma startDrone_p0_guard: "droneVoices_p0 s \<noteq> [] \<Longrightarrow> startDrone_p0 s = s"
  by (simp add: startDrone_p0_def)

lemma startDrone_active: "droneActive s \<Longrightarrow> startDrone b v rnd s = Inr s"
  by (simp add: startDrone_def)

lemma startDrone_p2_active: "droneActive_p2 s \<Longrightarrow> startDrone_p2 v s = Inr s"
  by (simp add: startDrone_p2_def)

lemma startDrone_twice:
  assumes "\<not> droneActive s" "audioContext s = Some c" "droneGain s = Some dg"
  shows "\<exists>s1. startDrone b v rnd s = Inr s1 \<and> startDrone b' v' rnd' s1 = Inr s1
     \<and> length (droneOscillators s1) = length (droneOscillators s) + 4"
proof -
  have len: "\<And>x. length (drone_frequencies x) = 4" by (simp add: drone_frequencies_def)
  obtain s1 where 1: "startDrone b v rnd s = Inr s1" "droneActive s1"
    "length (droneOscillators s1) = length (droneOscillators s) + 4"
    using assms by (simp add: startDrone_def Let_def len)
  then show ?thesis using startDrone_active by blast
qed

lemma startDrone_p2_twice:
  assumes "isInitialized_p2 s" "\<not> droneActive_p2 s" "audioContext_p2 s = Some c"
  shows "\<exists>s1. startDrone_p2 v s = Inr s1 \<and> startDrone_p2 v' s1 = Inr s1
     \<and> length (droneVoices_p2 s1) = 4"
proof -
  obtain s1 where 1: "startDrone_p2 v s = Inr s1" "droneActive_p2 s1" "length (droneVoices_p2 s1) = 4"
    using assms by (simp add: startDrone_p2_def Let_def)
  then show ?thesis using startDrone_p2_active by blast
qed

lemma init_p0_ready:
  "isInitialized_p0 (init_p0 new_synth_p0) \<and> droneVoices_p0 (init_p0 new_synth_p0) = []
   \<and> timeouts_p0 (init_p0 new_synth_p0) = []
   \<and> audioContext_p0 (init_p0 new_synth_p0) = Some new_context"
  by (simp add: init_p0_def new_synth_p0_def)

text \<open>
  C2, on the code. In part_000 \<open>startDrone\<close> tests \<open>droneVoices\<close>, which stays empty until
  the first timer fires. Called twice in a row on a fresh initialised engine it sets
  eight timers, and once they have fired the engine holds eight drone voices, two banks.
  A single call gives four.
\<close>

theorem C2_startDrone_twice_part_000:
  "droneVoices_p0 (startDrone_p0 (init_p0 new_synth_p0)) = []
   \<and> map_sum id (length \<circ> droneVoices_p0)
        (run_timeouts_p0 (\<lambda>_ _. 1 / 2) (startDrone_p0 (init_p0 new_synth_p0))) = Inr 4
   \<and> map_sum id (length \<circ> droneVoices_p0)
        (run_timeouts_p0 (\<lambda>_ _. 1 / 2) (startDrone_p0 (startDrone_p0 (init_p0 new_synth_p0)))) = Inr 8"
proof -
  let ?s0 = "init_p0 new_synth_p0"
  let ?s1 = "startDrone_p0 ?s0"
  let ?s2 = "startDrone_p0 ?s1"
  have 1: "droneVoices_p0 ?s1 = [] \<and> isInitialized_p0 ?s1
     \<and> audioContext_p0 ?s1 = Some new_context \<and> length (timeouts_p0 ?s1) = 4"
    using startDrone_p0_pending [of ?s0] init_p0_ready by simp
  have 2: "droneVoices_p0 ?s2 = [] \<and> audioContext_p0 ?s2 = Some new_context
     \<and> length (timeouts_p0 ?s2) = 8"
    using startDrone_p0_pending [of ?s1] 1 by simp
  obtain a where a: "run_timeouts_p0 (\<lambda>_ _. 1 / 2) ?s1 = Inr a" "length (droneVoices_p0 a) = 4"
    using run_timeouts_p0_count [of ?s1 new_context "\<lambda>_ _. 1 / 2"] 1 by auto
  obtain b where b: "run_timeouts_p0 (\<lambda>_ _. 1 / 2) ?s2 = Inr b" "length (droneVoices_p0 b) = 8"
    using run_timeouts_p0_count [of ?s2 new_context "\<lambda>_ _. 1 / 2"] 2 by auto
  show ?thesis using 1 a b by simp
qed

subsection \<open>Stopping and restarting the drone\<close>

lemma stop_oscillator_running:
  "running (stop_oscillator h c) h' \<longleftrightarrow> running c h' \<and> h' \<noteq> h"
  by (auto simp: running_def stop_oscillator_def nth_list_update)

lemma stop_oscillator_gains: "gainNodes (stop_oscillator h c) = gainNodes c"
  by (simp add: stop_oscillator_def)

lemma fold_stop_running:
  "running (fold stop_oscillator hs c) h' \<longleftrightarrow> running c h' \<and> h' \<notin> set hs"
  by (induction hs arbitrary: c) (auto simp: stop_oscillator_running)

lemma fold_stop_gains: "gainNodes (fold stop_oscillator hs c) = gainNodes c"
  by (induction hs arbitrary: c) (simp_all add: stop_oscillator_gains)

lemma fold_run_timeout:
  assumes "audioContext s = Some c"
  shows "\<exists>c'. fold run_timeout ts s = s\<lparr>audioContext := Some c'\<rparr>
     \<and> (\<forall>h. running c' h \<longleftrightarrow> running c h \<and> h \<notin> set (concat (map snd ts)))
     \<and> gainNodes c' = gainNodes c"
  using assms
proof (induction ts arbitrary: s c)
  case Nil
  then show ?case by (intro exI [of _ c]) simp
next
  case (Cons t ts)
  let ?c1 = "fold stop_oscillator (snd t) c"
  have 1: "run_timeout t s = s\<lparr>audioContext := Some ?c1\<rparr>"
    using Cons.prems by (simp add: run_timeout_def)
  have "audioContext (run_timeout t s) = Some ?c1" using 1 by simp
  from Cons.IH [OF this] obtain c' where
    c': "fold run_timeout ts (run_timeout t s) = (run_timeout t s)\<lparr>audioContext := Some c'\<rparr>"
      "\<forall>h. running c' h \<longleftrightarrow> running ?c1 h \<and> h \<notin> set (concat (map snd ts))"
      "gainNodes c' = gainNodes ?c1"
    by blast
  show ?case
  proof (intro exI [of _ c'] conjI)
    show "fold run_timeout (t # ts) s = s\<lparr>audioContext := Some c'\<rparr>"
      using c'(1) 1 by simp
    show "\<forall>h. running c' h \<longleftrightarrow> running c h \<and> h \<notin> set (concat (map snd (t # ts)))"
      using c'(2) by (auto simp: fold_stop_running)
    show "gainNodes c' = gainNodes c" using c'(3) by (simp add: fold_stop_gains)
  qed
qed

lemma running_add_nodes:
  "running (add_nodes os gs c) h \<longleftrightarrow>
     (if h < length (oscillators c) then running c h
      else h < length (oscillators c) + length os
           \<and> startTime (os ! (h - length (oscillators c))) \<noteq> None
           \<and> stopTime (os ! (h - length (oscillators c))) = None)"
  by (auto simp: running_def add_nodes_def nth_append)

lemma running_valid: "running c h \<Longrightarrow> h < length (oscillators c)"
  by (simp add: running_def)

text \<open>The state after \<open>stopDrone\<close>, then \<open>startDrone\<close>, then the pending callbacks.\<close>

lemma stop_start_v2:
  assumes "droneActive s" "audioContext s = Some c" "droneGain s = Some dg"
    and valid: "list_all (\<lambda>h. h < length (oscillators c))
                  (concat (map snd (timeouts s)) @ map fst (droneOscillators s))"
  shows "\<exists>s1 s2 c3. stopDrone s = Inr s1 \<and> droneOscillators s1 = []
     \<and> startDrone b v rnd s1 = Inr s2
     \<and> audioContext (run_timeouts s2) = Some c3
     \<and> droneOscillators (run_timeouts s2)
          = map (\<lambda>i. (length (oscillators c) + i, length (gainNodes c) + i)) [0..<4]
     \<and> list_all (running c3) (map fst (droneOscillators (run_timeouts s2)))
     \<and> list_all (\<lambda>h. \<not> running c3 h) (map fst (droneOscillators s))
     \<and> (\<forall>h. running c3 h \<longleftrightarrow>
            (running c h \<and> h \<notin> set (concat (map snd (timeouts s))) \<and> h \<notin> fst ` set (droneOscillators s))
            \<or> (length (oscillators c) \<le> h \<and> h < length (oscillators c) + 4))"
proof -
  define n where "n = length (oscillators c)"
  define s1 where "s1 = s\<lparr>droneActive := False,
       droneGain := Some (schedule (SetTargetAtTime 0 (currentTime c) 0.5) dg),
       droneOscillators := [],
       timeouts := timeouts s @ [(2000, map fst (droneOscillators s))]\<rparr>"
  have 1: "stopDrone s = Inr s1" using assms(1-3) by (simp add: stopDrone_def s1_def)
  have len: "\<And>x. length (drone_frequencies x) = 4" by (simp add: drone_frequencies_def)
  define os where "os = map (\<lambda>i. \<lparr>otype = (if i = 0 then ''sawtooth'' else ''sine''),
        frequency = param (drone_frequencies (65.41 * 2 powr (b / 12)) ! i + (rnd i - 0.5) * 0.5) [],
        detune = param 0 [], startTime = Some (currentTime c), stopTime = None\<rparr>) [0..<4]"
  define gs where "gs = map (\<lambda>i. param (drone_gains ! i) []) [0..<4::nat]"
  define c2 where "c2 = add_nodes os gs c"
  define s2 where "s2 = s1\<lparr>droneActive := True, droneBaseNote := b, droneTargetVolume := v,
       audioContext := Some c2,
       droneOscillators := map (\<lambda>i. (n + i, length (gainNodes c) + i)) [0..<4],
       droneGain := Some (schedule (SetTargetAtTime v (currentTime c) 0.5)
          (schedule (SetTargetAtTime 0 (currentTime c) 0.5) dg))\<rparr>"
  have 2: "startDrone b v rnd s1 = Inr s2"
    using assms(2) by (simp add: startDrone_def s1_def s2_def c2_def os_def gs_def n_def Let_def len)
  have los: "length os = 4" by (simp add: os_def)
  have osr: "\<And>i. i < 4 \<Longrightarrow> startTime (os ! i) \<noteq> None \<and> stopTime (os ! i) = None"
    by (simp add: os_def)
  have ts2: "timeouts s2 = timeouts s @ [(2000, map fst (droneOscillators s))]"
    by (simp add: s2_def s1_def)
  have "audioContext (s2\<lparr>timeouts := []\<rparr>) = Some c2" by (simp add: s2_def)
  from fold_run_timeout [OF this, of "timeouts s2"] obtain c3 where
    c3: "run_timeouts s2 = s2\<lparr>timeouts := [], audioContext := Some c3\<rparr>"
      "\<forall>h. running c3 h \<longleftrightarrow> running c2 h \<and> h \<notin> set (concat (map snd (timeouts s2)))"
    by (auto simp: run_timeouts_def)
  have old: "\<And>h. h \<in> set (concat (map snd (timeouts s2))) \<Longrightarrow> h < n"
    using valid by (auto simp: ts2 list_all_iff n_def)
  have r2: "\<And>h. running c2 h \<longleftrightarrow> (if h < n then running c h else h < n + 4)"
    using osr by (auto simp: c2_def running_add_nodes los n_def)
  have r3: "\<And>h. running c3 h \<longleftrightarrow>
      (running c h \<and> h \<notin> set (concat (map snd (timeouts s))) \<and> h \<notin> fst ` set (droneOscillators s))
      \<or> (n \<le> h \<and> h < n + 4)"
  proof -
    fix h
    show "running c3 h \<longleftrightarrow>
      (running c h \<and> h \<notin> set (concat (map snd (timeouts s))) \<and> h \<notin> fst ` set (droneOscillators s))
      \<or> (n \<le> h \<and> h < n + 4)"
    proof (cases "h < n")
      case True
      then show ?thesis using c3(2) r2 by (auto simp: ts2)
    next
      case False
      then have "h \<notin> set (concat (map snd (timeouts s2)))" using old by blast
      then show ?thesis using c3(2) r2 False running_valid [of c h] by (auto simp: n_def)
    qed
  qed
  have bank: "droneOscillators (run_timeouts s2) = map (\<lambda>i. (n + i, length (gainNodes c) + i)) [0..<4]"
    by (subst c3(1)) (simp add: s2_def)
  have new: "list_all (running c3) (map fst (droneOscillators (run_timeouts s2)))"
    unfolding bank by (auto simp: list_all_iff r3)
  have oldb: "list_all (\<lambda>h. \<not> running c3 h) (map fst (droneOscillators s))"
  proof -
    have "\<And>h. h \<in> fst ` set (droneOscillators s) \<Longrightarrow> \<not> running c3 h"
    proof -
      fix h assume h: "h \<in> fst ` set (droneOscillators s)"
      then have "h < n" using valid by (auto simp: list_all_iff n_def)
      then show "\<not> running c3 h" using h by (simp add: r3)
    qed
    then show ?thesis by (auto simp: list_all_iff)
  qed
  have ctx: "audioContext (run_timeouts s2) = Some c3" by (simp add: c3(1))
  have s1e: "droneOscillators s1 = []" by (simp add: s1_def)
  show ?thesis
    using 1 2 ctx bank new oldb r3 s1e unfolding n_def by blast
qed


lemma ramp_gain_running: "running (ramp_gain e g c) h = running c h"
  by (simp add: ramp_gain_def running_def)

lemma ramp_gain_lengths:
  "length (oscillators (ramp_gain e g c)) = length (oscillators c)
   \<and> length (gainNodes (ramp_gain e g c)) = length (gainNodes c)
   \<and> currentTime (ramp_gain e g c) = currentTime c"
  by (simp add: ramp_gain_def)

lemma fold_ramp_gain:
  "running (fold (ramp_gain e) gs c) h = running c h
   \<and> length (oscillators (fold (ramp_gain e) gs c)) = length (oscillators c)
   \<and> length (gainNodes (fold (ramp_gain e) gs c)) = length (gainNodes c)
   \<and> currentTime (fold (ramp_gain e) gs c) = currentTime c"
  by (induction gs arbitrary: c) (simp_all add: ramp_gain_running ramp_gain_lengths)

lemma fold_run_timeout_p2:
  assumes "audioContext_p2 s = Some c"
  shows "\<exists>c'. fold run_timeout_p2 ts s = s\<lparr>audioContext_p2 := Some c'\<rparr>
     \<and> (\<forall>h. running c' h \<longleftrightarrow> running c h \<and> h \<notin> set (map snd ts))"
  using assms
proof (induction ts arbitrary: s c)
  case Nil
  then show ?case by (intro exI [of _ c]) simp
next
  case (Cons t ts)
  let ?c1 = "stop_oscillator (snd t) c"
  have 1: "run_timeout_p2 t s = s\<lparr>audioContext_p2 := Some ?c1\<rparr>"
    using Cons.prems by (simp add: run_timeout_p2_def)
  have "audioContext_p2 (run_timeout_p2 t s) = Some ?c1" using 1 by simp
  from Cons.IH [OF this] obtain c' where
    c': "fold run_timeout_p2 ts (run_timeout_p2 t s) = (run_timeout_p2 t s)\<lparr>audioContext_p2 := Some c'\<rparr>"
      "\<forall>h. running c' h \<longleftrightarrow> running ?c1 h \<and> h \<notin> set (map snd ts)"
    by blast
  show ?case
  proof (intro exI [of _ c'] conjI)
    show "fold run_timeout_p2 (t # ts) s = s\<lparr>audioContext_p2 := Some c'\<rparr>"
      using c'(1) 1 by simp
    show "\<forall>h. running c' h \<longleftrightarrow> running c h \<and> h \<notin> set (map snd (t # ts))"
      using c'(2) by (auto simp: stop_oscillator_running)
  qed
qed

lemma stop_start_p2:
  assumes "isInitialized_p2 s" "droneActive_p2 s" "audioContext_p2 s = Some c"
    and valid: "list_all (\<lambda>h. h < length (oscillators c))
                  (map snd (timeouts_p2 s) @ map fst (droneVoices_p2 s))"
  shows "\<exists>s1 s2 c3. stopDrone_p2 s = Inr s1 \<and> droneVoices_p2 s1 = []
     \<and> startDrone_p2 v s1 = Inr s2
     \<and> audioContext_p2 (run_timeouts_p2 s2) = Some c3
     \<and> droneVoices_p2 (run_timeouts_p2 s2)
          = map (\<lambda>i. (length (oscillators c) + i, length (gainNodes c) + i)) [0..<4]
     \<and> list_all (running c3) (map fst (droneVoices_p2 (run_timeouts_p2 s2)))
     \<and> list_all (\<lambda>h. \<not> running c3 h) (map fst (droneVoices_p2 s))
     \<and> (\<forall>h. running c3 h \<longleftrightarrow>
            (running c h \<and> h \<notin> set (map snd (timeouts_p2 s)) \<and> h \<notin> fst ` set (droneVoices_p2 s))
            \<or> (length (oscillators c) \<le> h \<and> h < length (oscillators c) + 4))"
proof -
  define n where "n = length (oscillators c)"
  define c1 where "c1 = fold (ramp_gain (LinearRampToValueAtTime 0 (currentTime c + 1)))
                          (map snd (droneVoices_p2 s)) c"
  have c1: "\<And>h. running c1 h = running c h" "length (oscillators c1) = n"
    "length (gainNodes c1) = length (gainNodes c)" "currentTime c1 = currentTime c"
    using fold_ramp_gain [of "LinearRampToValueAtTime 0 (currentTime c + 1)"
        "map snd (droneVoices_p2 s)" c]
    by (simp_all add: c1_def n_def)
  define s1 where "s1 = s\<lparr>audioContext_p2 := Some c1,
       timeouts_p2 := timeouts_p2 s @ map (\<lambda>v. (1200, fst v)) (droneVoices_p2 s),
       droneActive_p2 := False, droneVoices_p2 := []\<rparr>"
  have 1: "stopDrone_p2 s = Inr s1"
    using assms(2,3) by (simp add: stopDrone_p2_def s1_def c1_def Let_def)
  define drone where "drone = (\<lambda>ty f. \<lparr>otype = ty, frequency = param f [], detune = param 0 [],
                                   startTime = Some (currentTime c), stopTime = None\<rparr>)"
  define b where "b = 65.41 * 2 powr (droneBaseTone_p2 s / 12)"
  define os where "os = [drone ''sine'' b, drone ''sine'' (b * 2), drone ''triangle'' (b * 3),
                      drone ''sine'' 0.1]"
  define gs where "gs = [param 1 [SetValueAtTime 0 (currentTime c),
                                 LinearRampToValueAtTime v (currentTime c + 2)],
                      param 0.3 [], param 0.15 [], param 1 []]"
  define c2 where "c2 = add_nodes os gs c1"
  define s2 where "s2 = s1\<lparr>audioContext_p2 := Some c2,
       droneVoices_p2 := map (\<lambda>i. (n + i, length (gainNodes c) + i)) [0..<4],
       droneActive_p2 := True, droneVolume_p2 := Some v\<rparr>"
  have 2: "startDrone_p2 v s1 = Inr s2"
    using assms(1) c1(2-4)
    by (simp add: startDrone_p2_def s1_def s2_def c2_def os_def gs_def drone_def b_def Let_def)
  have los: "length os = 4" by (simp add: os_def)
  have osr: "\<And>i. i < 4 \<Longrightarrow> startTime (os ! i) \<noteq> None \<and> stopTime (os ! i) = None"
  proof -
    fix i :: nat assume "i < 4"
    then have "i = 0 \<or> i = 1 \<or> i = 2 \<or> i = 3" by linarith
    then show "startTime (os ! i) \<noteq> None \<and> stopTime (os ! i) = None"
      by (auto simp: os_def drone_def)
  qed
  have ts2: "timeouts_p2 s2 = timeouts_p2 s @ map (\<lambda>v. (1200, fst v)) (droneVoices_p2 s)"
    by (simp add: s2_def s1_def)
  have "audioContext_p2 (s2\<lparr>timeouts_p2 := []\<rparr>) = Some c2" by (simp add: s2_def)
  from fold_run_timeout_p2 [OF this, of "timeouts_p2 s2"] obtain c3 where
    c3: "run_timeouts_p2 s2 = s2\<lparr>timeouts_p2 := [], audioContext_p2 := Some c3\<rparr>"
      "\<forall>h. running c3 h \<longleftrightarrow> running c2 h \<and> h \<notin> set (map snd (timeouts_p2 s2))"
    by (auto simp: run_timeouts_p2_def)
  have pend: "set (map snd (timeouts_p2 s2))
      = set (map snd (timeouts_p2 s)) \<union> fst ` set (droneVoices_p2 s)"
    by (auto simp: ts2 image_iff)
  have old: "\<And>h. h \<in> set (map snd (timeouts_p2 s2)) \<Longrightarrow> h < n"
    unfolding pend using valid by (auto simp: list_all_iff n_def)
  have r2: "\<And>h. running c2 h \<longleftrightarrow> (if h < n then running c h else h < n + 4)"
    using osr c1(1,2) by (auto simp: c2_def running_add_nodes los)
  have r3: "\<And>h. running c3 h \<longleftrightarrow>
      (running c h \<and> h \<notin> set (map snd (timeouts_p2 s)) \<and> h \<notin> fst ` set (droneVoices_p2 s))
      \<or> (n \<le> h \<and> h < n + 4)"
  proof -
    fix h
    show "running c3 h \<longleftrightarrow>
      (running c h \<and> h \<notin> set (map snd (timeouts_p2 s)) \<and> h \<notin> fst ` set (droneVoices_p2 s))
      \<or> (n \<le> h \<and> h < n + 4)"
    proof (cases "h < n")
      case True
      then show ?thesis using c3(2) r2 unfolding pend by auto
    next
      case False
      then have "h \<notin> set (map snd (timeouts_p2 s2))" using old by blast
      then show ?thesis using c3(2) r2 False running_valid [of c h] by (auto simp: n_def)
    qed
  qed
  have bank: "droneVoices_p2 (run_timeouts_p2 s2) = map (\<lambda>i. (n + i, length (gainNodes c) + i)) [0..<4]"
    by (subst c3(1)) (simp add: s2_def)
  have new: "list_all (running c3) (map fst (droneVoices_p2 (run_timeouts_p2 s2)))"
    unfolding bank by (auto simp: list_all_iff r3)
  have oldb: "list_all (\<lambda>h. \<not> running c3 h) (map fst (droneVoices_p2 s))"
  proof -
    have "\<And>h. h \<in> fst ` set (droneVoices_p2 s) \<Longrightarrow> \<not> running c3 h"
    proof -
      fix h assume h: "h \<in> fst ` set (droneVoices_p2 s)"
      then have "h < n" using valid by (auto simp: list_all_iff n_def)
      then show "\<not> running c3 h" using h by (simp add: r3)
    qed
    then show ?thesis by (auto simp: list_all_iff)
  qed
  have ctx: "audioContext_p2 (run_timeouts_p2 s2) = Some c3" by (simp add: c3(1))
  have s1e: "droneVoices_p2 s1 = []" by (simp add: s1_def)
  show ?thesis
    using 1 2 ctx bank new oldb r3 s1e unfolding n_def by blast
qed

text \<open>
  C3. Stopping an active drone and starting it again at once, in v2.0.0 and in part_002.
  \<open>stopDrone\<close> empties the bank reference as it returns; \<open>startDrone\<close> then creates a new
  bank of four oscillators. Once the pending callbacks have run, the bank is exactly the
  four new oscillators, all sounding, no oscillator of the old bank sounds, and an
  oscillator sounds exactly if it is one of the new four or sounded before and was in
  neither the old bank nor an earlier pending stop. The states are those whose bank and
  pending callbacks refer to oscillators of the context.
\<close>

theorem C3_stop_then_start_keeps_one_bank:
  "(droneActive s \<and> audioContext s = Some c \<and> droneGain s = Some dg
      \<and> list_all (\<lambda>h. h < length (oscillators c))
           (concat (map snd (timeouts s)) @ map fst (droneOscillators s)) \<longrightarrow>
     (\<exists>s1 s2 c3. stopDrone s = Inr s1 \<and> droneOscillators s1 = []
        \<and> startDrone b v rnd s1 = Inr s2
        \<and> audioContext (run_timeouts s2) = Some c3
        \<and> droneOscillators (run_timeouts s2)
             = map (\<lambda>i. (length (oscillators c) + i, length (gainNodes c) + i)) [0..<4]
        \<and> list_all (running c3) (map fst (droneOscillators (run_timeouts s2)))
        \<and> list_all (\<lambda>h. \<not> running c3 h) (map fst (droneOscillators s))
        \<and> (\<forall>h. running c3 h \<longleftrightarrow>
               (running c h \<and> h \<notin> set (concat (map snd (timeouts s)))
                  \<and> h \<notin> fst ` set (droneOscillators s))
               \<or> (length (oscillators c) \<le> h \<and> h < length (oscillators c) + 4))))
   \<and> (isInitialized_p2 t \<and> droneActive_p2 t \<and> audioContext_p2 t = Some d
      \<and> list_all (\<lambda>h. h < length (oscillators d))
           (map snd (timeouts_p2 t) @ map fst (droneVoices_p2 t)) \<longrightarrow>
     (\<exists>t1 t2 d3. stopDrone_p2 t = Inr t1 \<and> droneVoices_p2 t1 = []
        \<and> startDrone_p2 v t1 = Inr t2
        \<and> audioContext_p2 (run_timeouts_p2 t2) = Some d3
        \<and> droneVoices_p2 (run_timeouts_p2 t2)
             = map (\<lambda>i. (length (oscillators d) + i, length (gainNodes d) + i)) [0..<4]
        \<and> list_all (running d3) (map fst (droneVoices_p2 (run_timeouts_p2 t2)))
        \<and> list_all (\<lambda>h. \<not> running d3 h) (map fst (droneVoices_p2 t))
        \<and> (\<forall>h. running d3 h \<longleftrightarrow>
               (running d h \<and> h \<notin> set (map snd (timeouts_p2 t))
                  \<and> h \<notin> fst ` set (droneVoices_p2 t))
               \<or> (length (oscillators d) \<le> h \<and> h < length (oscillators d) + 4))))"
proof (intro conjI impI)
  assume "droneActive s \<and> audioContext s = Some c \<and> droneGain s = Some dg
      \<and> list_all (\<lambda>h. h < length (oscillators c))
           (concat (map snd (timeouts s)) @ map fst (droneOscillators s))"
  then show "\<exists>s1 s2 c3. stopDrone s = Inr s1 \<and> droneOscillators s1 = []
        \<and> startDrone b v rnd s1 = Inr s2
        \<and> audioContext (run_timeouts s2) = Some c3
        \<and> droneOscillators (run_timeouts s2)
             = map (\<lambda>i. (length (oscillators c) + i, length (gainNodes c) + i)) [0..<4]
        \<and> list_all (running c3) (map fst (droneOscillators (run_timeouts s2)))
        \<and> list_all (\<lambda>h. \<not> running c3 h) (map fst (droneOscillators s))
        \<and> (\<forall>h. running c3 h \<longleftrightarrow>
               (running c h \<and> h \<notin> set (concat (map snd (timeouts s)))
                  \<and> h \<notin> fst ` set (droneOscillators s))
               \<or> (length (oscillators c) \<le> h \<and> h < length (oscillators c) + 4))"
    by (intro stop_start_v2) simp_all
next
  assume "isInitialized_p2 t \<and> droneActive_p2 t \<and> audioContext_p2 t = Some d
      \<and> list_all (\<lambda>h. h < length (oscillators d))
           (map snd (timeouts_p2 t) @ map fst (droneVoices_p2 t))"
  then show "\<exists>t1 t2 d3. stopDrone_p2 t = Inr t1 \<and> droneVoices_p2 t1 = []
        \<and> startDrone_p2 v t1 = Inr t2
        \<and> audioContext_p2 (run_timeouts_p2 t2) = Some d3
        \<and> droneVoices_p2 (run_timeouts_p2 t2)
             = map (\<lambda>i. (length (oscillators d) + i, length (gainNodes d) + i)) [0..<4]
        \<and> list_all (running d3) (map fst (droneVoices_p2 (run_timeouts_p2 t2)))
        \<and> list_all (\<lambda>h. \<not> running d3 h) (map fst (droneVoices_p2 t))
        \<and> (\<forall>h. running d3 h \<longleftrightarrow>
               (running d h \<and> h \<notin> set (map snd (timeouts_p2 t))
                  \<and> h \<notin> fst ` set (droneVoices_p2 t))
               \<or> (length (oscillators d) \<le> h \<and> h < length (oscillators d) + 4))"
    by (intro stop_start_p2) simp_all
qed


lemma upt4: "[0..<4] = [0, 1, 2, 3::nat]"
  by (simp add: upt_conv_Cons)

lemma started_v2:
  "\<exists>s0 c0 dg0. startDrone 0 0.3 (\<lambda>_. 1 / 2) (init new_synth) = Inr s0
     \<and> droneActive s0 \<and> audioContext s0 = Some c0 \<and> droneGain s0 = Some dg0
     \<and> length (oscillators c0) = 4 \<and> length (gainNodes c0) = 4
     \<and> timeouts s0 = [] \<and> droneOscillators s0 = [(0, 0), (1, 1), (2, 2), (3, 3)]"
proof -
  have len: "\<And>x. length (drone_frequencies x) = 4" by (simp add: drone_frequencies_def)
  show ?thesis
    by (simp add: startDrone_def init_def new_synth_def new_context_def add_nodes_def Let_def len upt4)
qed

lemma started_p2:
  "\<exists>t0 d0. startDrone_p2 0.3 (init_p2 new_synth_p2) = Inr t0
     \<and> isInitialized_p2 t0 \<and> droneActive_p2 t0 \<and> audioContext_p2 t0 = Some d0
     \<and> length (oscillators d0) = 4 \<and> length (gainNodes d0) = 4
     \<and> timeouts_p2 t0 = [] \<and> droneVoices_p2 t0 = [(0, 0), (1, 1), (2, 2), (3, 3)]"
  by (simp add: startDrone_p2_def init_p2_def new_synth_p2_def new_context_def add_nodes_def Let_def upt4)

theorem C3_stop_then_start_keeps_one_bank_witness:
  "(\<exists>s0 c0 s1 s2 c3. startDrone 0 0.3 (\<lambda>_. 1 / 2) (init new_synth) = Inr s0
      \<and> droneActive s0 \<and> audioContext s0 = Some c0
      \<and> list_all (\<lambda>h. h < length (oscillators c0))
           (concat (map snd (timeouts s0)) @ map fst (droneOscillators s0))
      \<and> stopDrone s0 = Inr s1 \<and> startDrone 0 0.3 (\<lambda>_. 1 / 2) s1 = Inr s2
      \<and> audioContext (run_timeouts s2) = Some c3
      \<and> droneOscillators (run_timeouts s2) = [(4, 4), (5, 5), (6, 6), (7, 7)]
      \<and> list_all (running c3) [4, 5, 6, 7]
      \<and> list_all (\<lambda>h. \<not> running c3 h) [0, 1, 2, 3])
   \<and> (\<exists>t0 d0 t1 t2 d3. startDrone_p2 0.3 (init_p2 new_synth_p2) = Inr t0
      \<and> isInitialized_p2 t0 \<and> droneActive_p2 t0 \<and> audioContext_p2 t0 = Some d0
      \<and> list_all (\<lambda>h. h < length (oscillators d0))
           (map snd (timeouts_p2 t0) @ map fst (droneVoices_p2 t0))
      \<and> stopDrone_p2 t0 = Inr t1 \<and> startDrone_p2 0.3 t1 = Inr t2
      \<and> audioContext_p2 (run_timeouts_p2 t2) = Some d3
      \<and> droneVoices_p2 (run_timeouts_p2 t2) = [(4, 4), (5, 5), (6, 6), (7, 7)]
      \<and> list_all (running d3) [4, 5, 6, 7]
      \<and> list_all (\<lambda>h. \<not> running d3 h) [0, 1, 2, 3])"
proof -
  obtain s0 c0 dg0 where s0: "startDrone 0 0.3 (\<lambda>_. 1 / 2) (init new_synth) = Inr s0"
    "droneActive s0" "audioContext s0 = Some c0" "droneGain s0 = Some dg0"
    "length (oscillators c0) = 4" "length (gainNodes c0) = 4"
    "timeouts s0 = []" "droneOscillators s0 = [(0, 0), (1, 1), (2, 2), (3, 3)]"
    using started_v2 by blast
  obtain t0 d0 where t0: "startDrone_p2 0.3 (init_p2 new_synth_p2) = Inr t0"
    "isInitialized_p2 t0" "droneActive_p2 t0" "audioContext_p2 t0 = Some d0"
    "length (oscillators d0) = 4" "length (gainNodes d0) = 4"
    "timeouts_p2 t0 = []" "droneVoices_p2 t0 = [(0, 0), (1, 1), (2, 2), (3, 3)]"
    using started_p2 by blast
  have vs: "list_all (\<lambda>h. h < length (oscillators c0))
           (concat (map snd (timeouts s0)) @ map fst (droneOscillators s0))"
    using s0 by simp
  have vt: "list_all (\<lambda>h. h < length (oscillators d0))
           (map snd (timeouts_p2 t0) @ map fst (droneVoices_p2 t0))"
    using t0 by simp
  have u: "map (\<lambda>i. (4 + i, 4 + i)) [0..<4] = [(4, 4), (5, 5), (6, 6), (7::nat, 7::nat)]"
    by (simp add: upt4)
  note C = C3_stop_then_start_keeps_one_bank [of s0 c0 dg0 0 "0.3" "\<lambda>_. 1 / 2" t0 d0]
  have hs: "droneActive s0 \<and> audioContext s0 = Some c0 \<and> droneGain s0 = Some dg0
      \<and> list_all (\<lambda>h. h < length (oscillators c0))
           (concat (map snd (timeouts s0)) @ map fst (droneOscillators s0))"
    using s0(2-4) vs by blast
  have ht: "isInitialized_p2 t0 \<and> droneActive_p2 t0 \<and> audioContext_p2 t0 = Some d0
      \<and> list_all (\<lambda>h. h < length (oscillators d0))
           (map snd (timeouts_p2 t0) @ map fst (droneVoices_p2 t0))"
    using t0(2-4) vt by blast
  from mp [OF conjunct1 [OF C] hs] obtain s1 s2 c3 where a: "stopDrone s0 = Inr s1"
    "startDrone 0 0.3 (\<lambda>_. 1 / 2) s1 = Inr s2" "audioContext (run_timeouts s2) = Some c3"
    "droneOscillators (run_timeouts s2)
       = map (\<lambda>i. (length (oscillators c0) + i, length (gainNodes c0) + i)) [0..<4]"
    "list_all (running c3) (map fst (droneOscillators (run_timeouts s2)))"
    "list_all (\<lambda>h. \<not> running c3 h) (map fst (droneOscillators s0))"
    by blast
  from mp [OF conjunct2 [OF C] ht] obtain t1 t2 d3 where b: "stopDrone_p2 t0 = Inr t1"
    "startDrone_p2 0.3 t1 = Inr t2" "audioContext_p2 (run_timeouts_p2 t2) = Some d3"
    "droneVoices_p2 (run_timeouts_p2 t2)
       = map (\<lambda>i. (length (oscillators d0) + i, length (gainNodes d0) + i)) [0..<4]"
    "list_all (running d3) (map fst (droneVoices_p2 (run_timeouts_p2 t2)))"
    "list_all (\<lambda>h. \<not> running d3 h) (map fst (droneVoices_p2 t0))"
    by blast
  have a4: "droneOscillators (run_timeouts s2) = [(4, 4), (5, 5), (6, 6), (7, 7)]"
    using a(4) u by (simp only: s0(5,6))
  have b4: "droneVoices_p2 (run_timeouts_p2 t2) = [(4, 4), (5, 5), (6, 6), (7, 7)]"
    using b(4) u by (simp only: t0(5,6))
  have a': "list_all (running c3) [4, 5, 6, 7] \<and> list_all (\<lambda>h. \<not> running c3 h) [0, 1, 2, 3]"
    using a(5,6) a4 s0(8) by simp
  have b': "list_all (running d3) [4, 5, 6, 7] \<and> list_all (\<lambda>h. \<not> running d3 h) [0, 1, 2, 3]"
    using b(5,6) b4 t0(8) by simp
  show ?thesis
    using s0(1-3) vs a(1-3) a4 a' t0(1-4) vt b(1-3) b4 b' by blast
qed

subsection \<open>Pitch bend\<close>





























subsection \<open>Gain envelopes\<close>















































end
